theory Spec2Isabelle
  imports Complex_Main "HOL-Library.Log_Nat"
begin

section \<open>Numbers and thrown values\<close>

text \<open>
  A JavaScript \<open>number\<close> that holds a finite value is a binary64 double, modelled as the
  rational it denotes. Every arithmetic operation gives the exact result rounded to the
  nearest double, a tie going to the even significand: \<open>fl\<close>. The exponent range is not
  bounded (no overflow to \<open>Infinity\<close>, no subnormals), and \<open>-0\<close> is \<open>0\<close>.
\<close>

text \<open>The position of the leading bit: \<open>2 ^ exponent x \<le> |x| < 2 ^ (exponent x + 1)\<close>.\<close>

definition exponent :: "rat \<Rightarrow> int" where
  "exponent x =
     (let (p, q) = quotient_of \<bar>x\<bar>;
          c = bitlen p - bitlen q
      in if 2 powi c \<le> \<bar>x\<bar> then c else c - 1)"

definition round_even :: "rat \<Rightarrow> int" where
  "round_even y =
     (let f = \<lfloor>y\<rfloor>; r = y - of_int f
      in if r < 1 / 2 then f
         else if 1 / 2 < r then f + 1
         else if even f then f else f + 1)"

definition fl :: "rat \<Rightarrow> rat" where
  "fl x =
     (if x = 0 then 0
      else let ulp = 2 powi (exponent x - 52)
           in of_int (round_even (x / ulp)) * ulp)"

definition js_add :: "rat \<Rightarrow> rat \<Rightarrow> rat" where
  "js_add a b = fl (a + b)"

definition js_sub :: "rat \<Rightarrow> rat \<Rightarrow> rat" where
  "js_sub a b = fl (a - b)"

definition js_mul :: "rat \<Rightarrow> rat \<Rightarrow> rat" where
  "js_mul a b = fl (a * b)"

text \<open>\<open>a / b\<close> where the code divides by a constant or by the length of a non-empty list.\<close>

definition js_quot :: "rat \<Rightarrow> rat \<Rightarrow> rat" where
  "js_quot a b = fl (a / b)"

text \<open>
  \<open>a / b\<close> where the divisor may be zero: the result then is \<open>Infinity\<close>, \<open>-Infinity\<close> or
  \<open>NaN\<close>, which the second constructor stands for together.
\<close>

datatype quotient = Finite rat | Infinite_or_NaN

definition js_div :: "rat \<Rightarrow> rat \<Rightarrow> quotient" where
  "js_div a b = (if b = 0 then Infinite_or_NaN else Finite (fl (a / b)))"

text \<open>\<open>Math.round\<close>: the nearest integer, a tie going towards \<open>+\<infinity>\<close>.\<close>

definition Math_round :: "rat \<Rightarrow> rat" where
  "Math_round x = of_int \<lfloor>x + 1 / 2\<rfloor>"

definition Math_max :: "rat \<Rightarrow> rat \<Rightarrow> rat" where
  "Math_max a b = (if a < b then b else a)"

text \<open>
  \<open>x || d\<close> on an optional number: \<open>undefined\<close> and \<open>0\<close> are falsy and give \<open>d\<close>.
\<close>

definition or_else :: "rat option \<Rightarrow> rat \<Rightarrow> rat" where
  "or_else x d = (case x of None \<Rightarrow> d | Some v \<Rightarrow> if v = 0 then d else v)"

text \<open>A number of the configuration, as \<open>parseInt\<close> may give it.\<close>

datatype number = Num rat | NaN | Infinity | MinusInfinity

text \<open>
  A thrown value: an \<open>Error\<close> object with its message; any other value, with the text
  \<open>String(value)\<close> gives for it; or a value whose text cannot be taken, with what taking
  it throws (\<open>String\<close> of an object without \<open>toString\<close> throws a \<open>TypeError\<close>).
\<close>

datatype thrown = Error string | NonError string | Unreadable thrown

section \<open>Data model (types/benchmark.types.ts, types/crawler.types.ts)\<close>

record BenchmarkConfig =
  url :: string
  maxPages :: "number option"
  maxDepth :: "number option"
  iterations :: "number option"
  timeout :: "number option"

record Metadata =
  statusCode :: rat
  meta_timestamp :: string
  extra :: "(string \<times> string) list"

record CrawlResult =
  page_url :: string
  title :: string
  htmlContent :: string
  metadata :: Metadata

record BenchmarkMetrics =
  startTime :: rat
  endTime :: rat
  duration :: rat
  pagesProcessed :: rat
  pagesFailed :: rat
  memoryUsed :: "rat option"
  errors :: "string list"

text \<open>
  \<open>crawlerType\<close> is the string the code compares with \<open>===\<close>: the type admits
  \<open>''playwright''\<close> and \<open>''cheerio''\<close>, the command line's value is cast to it unchecked.
\<close>

record BenchmarkResult =
  crawlerType :: string
  config :: BenchmarkConfig
  metrics :: BenchmarkMetrics
  results :: "CrawlResult list"
  iteration :: nat

record ComparisonResult =
  playwright :: BenchmarkResult
  cheerio :: BenchmarkResult
  speedup :: quotient
  memoryDifference :: rat
  pagesDifference :: rat

record BenchmarkReport =
  timestamp :: string
  report_config :: BenchmarkConfig
  report_results :: "BenchmarkResult list"
  comparison :: "ComparisonResult option"

section \<open>The reporter (benchmark/reporter.ts)\<close>

text \<open>The accumulator of the \<open>reduce\<close> in \<open>averageResults\<close>.\<close>

record Totals =
  sum_duration :: rat
  sum_pagesProcessed :: rat
  sum_pagesFailed :: rat
  sum_memoryUsed :: rat
  sum_errors :: "string list"

definition zero_totals :: Totals where
  "zero_totals =
     \<lparr>sum_duration = 0, sum_pagesProcessed = 0, sum_pagesFailed = 0,
      sum_memoryUsed = 0, sum_errors = []\<rparr>"

definition add_result :: "Totals \<Rightarrow> BenchmarkResult \<Rightarrow> Totals" where
  "add_result acc result =
     \<lparr>sum_duration = js_add (sum_duration acc) (duration (metrics result)),
      sum_pagesProcessed =
        js_add (sum_pagesProcessed acc) (pagesProcessed (metrics result)),
      sum_pagesFailed = js_add (sum_pagesFailed acc) (pagesFailed (metrics result)),
      sum_memoryUsed =
        js_add (or_else (Some (sum_memoryUsed acc)) 0)
          (or_else (memoryUsed (metrics result)) 0),
      sum_errors = sum_errors acc @ errors (metrics result)\<rparr>"

definition averageResults :: "BenchmarkResult list \<Rightarrow> thrown + BenchmarkMetrics" where
  "averageResults rs =
     (if length rs = 0 then Inl (Error ''Cannot average empty results'')
      else
        let total = foldl add_result zero_totals rs;
            n = of_nat (length rs)
        in Inr
          \<lparr>startTime = startTime (metrics (rs ! 0)),
           endTime = endTime (metrics (rs ! (length rs - 1))),
           duration = Math_round (js_quot (sum_duration total) n),
           pagesProcessed = Math_round (js_quot (sum_pagesProcessed total) n),
           pagesFailed = Math_round (js_quot (sum_pagesFailed total) n),
           memoryUsed =
             Some (js_quot (Math_round (js_mul (js_quot (sum_memoryUsed total) n) 100)) 100),
           errors = sum_errors total\<rparr>)"

definition generateComparison ::
  "BenchmarkResult list \<Rightarrow> BenchmarkResult list \<Rightarrow> thrown + ComparisonResult" where
  "generateComparison playwrightResults cheerioResults =
     (case averageResults playwrightResults of
        Inl e \<Rightarrow> Inl e
      | Inr playwrightAvg \<Rightarrow>
          (case averageResults cheerioResults of
             Inl e \<Rightarrow> Inl e
           | Inr cheerioAvg \<Rightarrow>
               Inr
                 \<lparr>playwright = (playwrightResults ! 0)\<lparr>metrics := playwrightAvg\<rparr>,
                  cheerio = (cheerioResults ! 0)\<lparr>metrics := cheerioAvg\<rparr>,
                  speedup = js_div (duration playwrightAvg) (duration cheerioAvg),
                  memoryDifference =
                    js_sub (or_else (memoryUsed cheerioAvg) 0)
                      (or_else (memoryUsed playwrightAvg) 0),
                  pagesDifference =
                    js_sub (pagesProcessed cheerioAvg) (pagesProcessed playwrightAvg)\<rparr>))"

text \<open>
  \<open>generateReport\<close> stamps the report with \<open>new Date().toISOString()\<close>; the model takes
  that text as the argument \<open>now\<close>.
\<close>

definition generateReport ::
  "BenchmarkResult list \<Rightarrow> BenchmarkConfig \<Rightarrow> string \<Rightarrow> thrown + BenchmarkReport" where
  "generateReport rs cfg now =
     (let playwrightResults = filter (\<lambda>r. crawlerType r = ''playwright'') rs;
          cheerioResults = filter (\<lambda>r. crawlerType r = ''cheerio'') rs
      in if length playwrightResults > 0 \<and> length cheerioResults > 0
         then (case generateComparison playwrightResults cheerioResults of
                 Inl e \<Rightarrow> Inl e
               | Inr c \<Rightarrow>
                   Inr \<lparr>timestamp = now, report_config = cfg, report_results = rs,
                        comparison = Some c\<rparr>)
         else Inr \<lparr>timestamp = now, report_config = cfg, report_results = rs,
                   comparison = None\<rparr>)"

section \<open>The runner (benchmark/runner.ts)\<close>

subsection \<open>The runtime the runner calls\<close>

datatype impl = PlaywrightCrawlerImpl | CheerioCrawlerImpl

record CrawlerOptions =
  opt_maxPages :: "number option"
  opt_maxDepth :: "number option"
  opt_timeout :: "number option"
  opt_maxConcurrency :: "number option"

record CrawlMetadata =
  originalUrl :: string
  totalPages :: rat
  completedAt :: string
  executionTime :: rat

record ExtractedData =
  items :: "CrawlResult list"
  crawl_metadata :: CrawlMetadata

text \<open>
  The clock, the heap probe, \<open>parseInt\<close> and the two crawlers are the runtime's, over a
  state \<open>'w\<close> of the outside world that a call may change. \<open>crawl\<close> is the awaited call:
  it gives the settled promise (\<open>Inl\<close> a rejection, with its reason), the worlds at which
  the interval timer fired while it was pending, in order, and the world after it.
\<close>

record 'w runtime =
  Date_now :: "'w \<Rightarrow> int \<times> 'w"
  memoryUsage_is_function :: bool
  heapUsed :: "'w \<Rightarrow> nat \<times> 'w"
  toISOString :: "'w \<Rightarrow> string \<times> 'w"
  parseInt :: "string \<Rightarrow> number"
  crawl ::
    "impl \<Rightarrow> string \<Rightarrow> CrawlerOptions \<Rightarrow> 'w \<Rightarrow> (thrown + ExtractedData) \<times> 'w list \<times> 'w"

text \<open>The process: the module variable \<open>peakMemory\<close> and the world.\<close>

record 'w process =
  peakMemory :: rat
  world :: "'w"

subsection \<open>Memory probe\<close>

definition getMemoryUsage :: "'w runtime \<Rightarrow> 'w \<Rightarrow> rat \<times> 'w" where
  "getMemoryUsage E w =
     (if memoryUsage_is_function E
      then (let (usage, w') = heapUsed E w
            in (js_quot
                  (Math_round (js_mul (js_quot (js_quot (of_nat usage) 1024) 1024) 100))
                  100, w'))
      else (0, w))"

definition trackPeakMemory :: "'w runtime \<Rightarrow> 'w process \<Rightarrow> 'w process" where
  "trackPeakMemory E s =
     (let (current, w') = getMemoryUsage E (world s)
      in if current > peakMemory s then \<lparr>peakMemory = current, world = w'\<rparr>
         else \<lparr>peakMemory = peakMemory s, world = w'\<rparr>)"

text \<open>
  \<open>setInterval(() => trackPeakMemory(), 100)\<close>: the callback runs once at each world
  where the timer fired, until \<open>clearInterval\<close>.
\<close>

definition memoryInterval :: "'w runtime \<Rightarrow> 'w list \<Rightarrow> rat \<Rightarrow> rat" where
  "memoryInterval E fired peak =
     foldl (\<lambda>pk w. peakMemory (trackPeakMemory E \<lparr>peakMemory = pk, world = w\<rparr>)) peak fired"

subsection \<open>One iteration\<close>

text \<open>
  \<open>error instanceof Error ? error.message : String(error)\<close>: the text, or what reading
  it throws.
\<close>

definition message_of :: "thrown \<Rightarrow> thrown + string" where
  "message_of error =
     (case error of
        Error message \<Rightarrow> Inr message
      | NonError text \<Rightarrow> Inr text
      | Unreadable e \<Rightarrow> Inl e)"

text \<open>
  \<open>runBenchmark\<close> is an \<open>async\<close> function: it gives the settled promise, \<open>Inl\<close> when an
  exception leaves it. The \<open>catch\<close> clause takes every rejection of the crawl; what is
  thrown inside the clause itself leaves the function.
\<close>

definition runBenchmark ::
  "'w runtime \<Rightarrow> string \<Rightarrow> BenchmarkConfig \<Rightarrow> nat \<Rightarrow> 'w process \<Rightarrow>
     (thrown + BenchmarkResult) \<times> 'w process" where
  "runBenchmark E kind cfg i s0 =
     (let crawler = (if kind = ''playwright'' then PlaywrightCrawlerImpl
                     else CheerioCrawlerImpl);
          (start, w1) = Date_now E (world s0);
          (startMemory, w2) = getMemoryUsage E w1;
          (settled, fired, w3) =
            crawl E crawler (url cfg)
              \<lparr>opt_maxPages = maxPages cfg, opt_maxDepth = maxDepth cfg,
               opt_timeout = timeout cfg, opt_maxConcurrency = None\<rparr> w2;
          s3 = \<lparr>peakMemory = memoryInterval E fired startMemory, world = w3\<rparr>
      in case settled of
           Inr result \<Rightarrow>
             (let s4 = trackPeakMemory E s3;
                  (end, w5) = Date_now E (world s4);
                  (endMemory, w6) = getMemoryUsage E w5;
                  memoryDelta = Math_max 0 (js_sub (peakMemory s4) startMemory)
              in (Inr \<lparr>crawlerType = kind, config = cfg,
                   metrics =
                     \<lparr>startTime = of_int start, endTime = of_int end,
                      duration = js_sub (of_int end) (of_int start),
                      pagesProcessed = of_nat (length (items result)),
                      pagesFailed = 0, memoryUsed = Some memoryDelta, errors = []\<rparr>,
                   results =
                     map (\<lambda>item. \<lparr>page_url = page_url item, title = title item,
                                   htmlContent = htmlContent item,
                                   metadata = metadata item\<rparr>) (items result),
                   iteration = i\<rparr>,
                  \<lparr>peakMemory = peakMemory s4, world = w6\<rparr>))
         | Inl error \<Rightarrow>
             (let s4 = trackPeakMemory E s3;
                  (end, w5) = Date_now E (world s4)
              in case message_of error of
                   Inl e \<Rightarrow> (Inl e, \<lparr>peakMemory = peakMemory s4, world = w5\<rparr>)
                 | Inr errorMessage \<Rightarrow>
                     (let memoryDelta = Math_max 0 (js_sub (peakMemory s4) startMemory)
                      in (Inr \<lparr>crawlerType = kind, config = cfg,
                           metrics =
                             \<lparr>startTime = of_int start, endTime = of_int end,
                              duration = js_sub (of_int end) (of_int start),
                              pagesProcessed = 0, pagesFailed = 1,
                              memoryUsed = Some memoryDelta,
                              errors = [] @ [errorMessage]\<rparr>,
                           results = [], iteration = i\<rparr>,
                          \<lparr>peakMemory = peakMemory s4, world = w5\<rparr>))))"

subsection \<open>All iterations\<close>

text \<open>The command line's options, as the parser hands them over: every value is text.\<close>

record Options =
  o_url :: string
  o_maxPages :: string
  o_maxDepth :: string
  o_iterations :: string
  o_timeout :: string
  o_crawler :: string

text \<open>\<open>i < config.iterations\<close>, false when the bound is \<open>undefined\<close> or \<open>NaN\<close>.\<close>

definition index_below :: "nat \<Rightarrow> number option \<Rightarrow> bool" where
  "index_below i bound =
     (case bound of
        None \<Rightarrow> False
      | Some (Num n) \<Rightarrow> of_nat i < n
      | Some NaN \<Rightarrow> False
      | Some Infinity \<Rightarrow> True
      | Some MinusInfinity \<Rightarrow> False)"

text \<open>
  The inner loop \<open>for (let i = 0; i < config.iterations; i++)\<close>, from index \<open>i\<close> on. It
  gives the exception that ended it, if one did, with the results pushed so far; it
  gives \<open>None\<close> when it never ends, as with an infinite bound.
\<close>

partial_function (option) iterations_loop ::
  "'w runtime \<Rightarrow> string \<Rightarrow> BenchmarkConfig \<Rightarrow> nat \<Rightarrow> BenchmarkResult list \<Rightarrow> 'w process \<Rightarrow>
     (thrown option \<times> BenchmarkResult list \<times> 'w process) option" where
  "iterations_loop E kind cfg i rs s =
     (if index_below i (iterations cfg)
      then (case runBenchmark E kind cfg i s of
              (Inl e, s') \<Rightarrow> Some (Some e, rs, s')
            | (Inr result, s') \<Rightarrow> iterations_loop E kind cfg (i + 1) (rs @ [result]) s')
      else Some (None, rs, s))"

text \<open>The outer loop \<open>for (const crawlerType of crawlersToTest)\<close>.\<close>

fun crawlers_loop ::
  "'w runtime \<Rightarrow> string list \<Rightarrow> BenchmarkConfig \<Rightarrow> BenchmarkResult list \<Rightarrow> 'w process \<Rightarrow>
     (thrown option \<times> BenchmarkResult list \<times> 'w process) option" where
  "crawlers_loop E [] cfg rs s = Some (None, rs, s)"
| "crawlers_loop E (kind # rest) cfg rs s =
     (case iterations_loop E kind cfg 0 rs s of
        None \<Rightarrow> None
      | Some (Some e, rs', s') \<Rightarrow> Some (Some e, rs', s')
      | Some (None, rs', s') \<Rightarrow> crawlers_loop E rest cfg rs' s')"

text \<open>The \<open>config\<close> and \<open>crawlersToTest\<close> that \<open>runBenchmarks\<close> builds from the options.\<close>

definition config_of :: "'w runtime \<Rightarrow> Options \<Rightarrow> BenchmarkConfig" where
  "config_of E options =
     \<lparr>url = o_url options,
      maxPages = Some (parseInt E (o_maxPages options)),
      maxDepth = Some (parseInt E (o_maxDepth options)),
      iterations = Some (parseInt E (o_iterations options)),
      timeout = Some (parseInt E (o_timeout options))\<rparr>"

definition crawlersToTest :: "Options \<Rightarrow> string list" where
  "crawlersToTest options =
     (if o_crawler options = ''both'' then [''playwright'', ''cheerio'']
      else [o_crawler options])"

text \<open>
  \<open>runBenchmarks\<close> up to the report it builds; writing the two files and printing the
  summary follow and change neither the results nor the report. An exception that
  leaves \<open>runBenchmark\<close> leaves \<open>runBenchmarks\<close> too: the \<open>await\<close> in the loop has no
  handler.
\<close>

definition runBenchmarks ::
  "'w runtime \<Rightarrow> Options \<Rightarrow> 'w process \<Rightarrow> ((thrown + BenchmarkReport) \<times> 'w process) option" where
  "runBenchmarks E options s0 =
     (case crawlers_loop E (crawlersToTest options) (config_of E options) [] s0 of
        None \<Rightarrow> None
      | Some (Some e, rs, s1) \<Rightarrow> Some (Inl e, s1)
      | Some (None, rs, s1) \<Rightarrow>
          (let (now, w2) = toISOString E (world s1)
           in Some (generateReport rs (config_of E options) now,
                    \<lparr>peakMemory = peakMemory s1, world = w2\<rparr>)))"

section \<open>The specification's notions\<close>

text \<open>The arithmetic mean, exact.\<close>

definition mean :: "rat list \<Rightarrow> rat" where
  "mean xs = sum_list xs / of_nat (length xs)"

text \<open>
  The mean as binary64 arithmetic gives it: the values added from the left, each sum
  rounded, and the total divided by the count, rounded.
\<close>

definition mean64 :: "rat list \<Rightarrow> rat" where
  "mean64 xs = fl (foldl (\<lambda>a x. fl (a + x)) 0 xs / of_nat (length xs))"

definition whole :: "rat \<Rightarrow> bool" where
  "whole x = (of_int \<lfloor>x\<rfloor> = x)"

text \<open>Integers whose absolute values add up to less than \<open>2 ^ 52\<close>: their sums are exact.\<close>

definition small_integers :: "rat list \<Rightarrow> bool" where
  "small_integers xs = (list_all whole xs \<and> sum_list (map abs xs) < 2 ^ 52)"

text \<open>\<open>y\<close> is \<open>x\<close> rounded to the nearest integer, a tie upwards.\<close>

definition nearest_integer :: "rat \<Rightarrow> rat \<Rightarrow> bool" where
  "nearest_integer y x = (whole y \<and> x - 1 / 2 < y \<and> y \<le> x + 1 / 2)"

text \<open>\<open>y\<close> is \<open>x\<close> rounded to two decimal places, a tie upwards.\<close>

definition nearest_hundredth :: "rat \<Rightarrow> rat \<Rightarrow> bool" where
  "nearest_hundredth y x = (whole (100 * y) \<and> x - 1 / 200 < y \<and> y \<le> x + 1 / 200)"

text \<open>A memory figure that is absent counts as 0.\<close>

definition present_or_zero :: "rat option \<Rightarrow> rat" where
  "present_or_zero x = (case x of None \<Rightarrow> 0 | Some v \<Rightarrow> v)"

text \<open>The provider and the iteration index of each result, in list order.\<close>

definition labels :: "BenchmarkResult list \<Rightarrow> (string \<times> nat) list" where
  "labels rs = map (\<lambda>r. (crawlerType r, iteration r)) rs"

text \<open>Provider-major, iteration-minor: A's \<open>n\<close> iterations, then B's.\<close>

definition provider_major :: "nat \<Rightarrow> (string \<times> nat) list" where
  "provider_major n = map (Pair ''playwright'') [0 ..< n] @ map (Pair ''cheerio'') [0 ..< n]"

text \<open>
  What one call of \<open>runBenchmark\<close> observes: the baseline it reads before the crawl, the
  awaited crawl as it invokes it, and the memory samples taken from then on, the timer's
  first and the forced one after the crawl settled last.
\<close>

definition baseline :: "'w runtime \<Rightarrow> 'w process \<Rightarrow> rat" where
  "baseline E s = fst (getMemoryUsage E (snd (Date_now E (world s))))"

definition invocation ::
  "'w runtime \<Rightarrow> string \<Rightarrow> BenchmarkConfig \<Rightarrow> 'w process \<Rightarrow>
     (thrown + ExtractedData) \<times> 'w list \<times> 'w" where
  "invocation E kind cfg s =
     crawl E (if kind = ''playwright'' then PlaywrightCrawlerImpl else CheerioCrawlerImpl)
       (url cfg)
       \<lparr>opt_maxPages = maxPages cfg, opt_maxDepth = maxDepth cfg,
        opt_timeout = timeout cfg, opt_maxConcurrency = None\<rparr>
       (snd (getMemoryUsage E (snd (Date_now E (world s)))))"

definition samples :: "'w runtime \<Rightarrow> string \<Rightarrow> BenchmarkConfig \<Rightarrow> 'w process \<Rightarrow> rat list" where
  "samples E kind cfg s =
     (case invocation E kind cfg s of
        (settled, fired, w) \<Rightarrow> map (\<lambda>w'. fst (getMemoryUsage E w')) (fired @ [w]))"



section \<open>Example inputs\<close>

definition example_config :: BenchmarkConfig where
  "example_config =
     \<lparr>url = ''https://example.com'', maxPages = Some (Num 5), maxDepth = Some (Num 1),
      iterations = Some (Num 1), timeout = Some (Num 30000)\<rparr>"

definition example_metrics ::
  "rat \<Rightarrow> rat \<Rightarrow> rat \<Rightarrow> rat option \<Rightarrow> string list \<Rightarrow> BenchmarkMetrics" where
  "example_metrics t0 d pages mem errs =
     \<lparr>startTime = t0, endTime = t0 + d, duration = d, pagesProcessed = pages,
      pagesFailed = (if errs = [] then 0 else 1), memoryUsed = mem, errors = errs\<rparr>"

definition example_page :: "string \<Rightarrow> CrawlResult" where
  "example_page u =
     \<lparr>page_url = u, title = ''Example Domain'', htmlContent = ''<html></html>'',
      metadata = \<lparr>statusCode = 200, meta_timestamp = ''2024-01-01T00:00:00.000Z'',
                  extra = []\<rparr>\<rparr>"

definition example_result ::
  "string \<Rightarrow> nat \<Rightarrow> CrawlResult list \<Rightarrow> BenchmarkMetrics \<Rightarrow> BenchmarkResult" where
  "example_result kind i pages m =
     \<lparr>crawlerType = kind, config = example_config, metrics = m, results = pages,
      iteration = i\<rparr>"

text \<open>
  A runtime whose world is a step counter. The clock shows a second per step. The heap
  holds 50 MB at step 1, where the first baseline is read, 60 MB and 72.5 MB at steps 2
  and 3, 40 MB up to step 6, where the second baseline is read, and 30 MB from then on.
  The browser crawler is refused, the parsing crawler returns one page; a crawl takes
  three steps and the timer fires at the first two. \<open>parseInt\<close> knows four texts.
\<close>

definition example_runtime :: "nat runtime" where
  "example_runtime =
     \<lparr>Date_now = (\<lambda>w. (1000 * int w, w + 1)),
      memoryUsage_is_function = True,
      heapUsed = (\<lambda>w. (if w = 1 then 52428800 else if w = 2 then 62914560
                        else if w = 3 then 76021760 else if w \<le> 6 then 41943040
                        else 31457280, w)),
      toISOString = (\<lambda>w. (''2024-01-01T00:00:00.000Z'', w)),
      parseInt = (\<lambda>text.
        case map_of [(''1'', 1), (''2'', 2), (''5'', 5), (''30000'', 30000)] text of
          None \<Rightarrow> NaN
        | Some k \<Rightarrow> Num k),
      crawl = (\<lambda>c u opts w.
        (case c of
           PlaywrightCrawlerImpl \<Rightarrow> Inl (Error ''connection refused'')
         | CheerioCrawlerImpl \<Rightarrow>
             Inr \<lparr>items = [example_page u],
                  crawl_metadata =
                    \<lparr>originalUrl = u, totalPages = 1,
                     completedAt = ''2024-01-01T00:00:01.000Z'', executionTime = 1000\<rparr>\<rparr>,
         [w + 1, w + 2], w + 3))\<rparr>"

text \<open>
  The same runtime with crawlers that reject with an object that has no string
  conversion, as \<open>Object.create(null)\<close>.
\<close>

definition hostile_runtime :: "nat runtime" where
  "hostile_runtime =
     example_runtime
       \<lparr>crawl := (\<lambda>c u opts w.
          (Inl (Unreadable (Error ''Cannot convert object to primitive value'')),
           [w + 1, w + 2], w + 3))\<rparr>"

definition example_options :: Options where
  "example_options =
     \<lparr>o_url = ''https://example.com'', o_maxPages = ''5'', o_maxDepth = ''1'',
      o_iterations = ''2'', o_timeout = ''30000'', o_crawler = ''both''\<rparr>"

section \<open>Binary64 rounding\<close>

lemma pow2_add: "(2::rat) powi (a + b) = 2 powi a * 2 powi b"
  by (rule power_int_add) simp

lemma pow2_diff: "(2::rat) powi (a - b) = 2 powi a / 2 powi b"
  by (rule power_int_diff) simp

lemma pow2_pos: "(0::rat) < 2 powi a"
  by simp

lemma pow2_Suc: "(2::rat) powi (a + 1) = 2 * 2 powi a"
  by (simp add: pow2_add)

lemma exponent_bounds:
  assumes "x \<noteq> 0"
  shows "2 powi exponent x \<le> \<bar>x\<bar>" and "\<bar>x\<bar> < 2 powi (exponent x + 1)"
proof -
  obtain p q where pq: "quotient_of \<bar>x\<bar> = (p, q)"
    by (cases "quotient_of \<bar>x\<bar>")
  then have q: "0 < q" and x: "\<bar>x\<bar> = of_int p / of_int q"
    by (simp_all add: quotient_of_denom_pos quotient_of_div)
  from assms have "0 < \<bar>x\<bar>"
    by simp
  with x have "0 < of_int p / (of_int q :: rat)"
    by simp
  with q have p: "0 < p"
    by (simp add: zero_less_divide_iff)
  let ?c = "bitlen p - bitlen q"
  from bitlen_bounds [OF p] have bp: "(2::rat) ^ nat (bitlen p - 1) \<le> of_int p"
    "of_int p < (2::rat) ^ nat (bitlen p)"
    by (metis of_int_le_iff of_int_numeral of_int_power, metis of_int_less_iff of_int_numeral of_int_power)
  from bitlen_bounds [OF q] have bq: "(2::rat) ^ nat (bitlen q - 1) \<le> of_int q"
    "of_int q < (2::rat) ^ nat (bitlen q)"
    by (metis of_int_le_iff of_int_numeral of_int_power, metis of_int_less_iff of_int_numeral of_int_power)
  from p q have bl: "1 \<le> bitlen p" "1 \<le> bitlen q"
    by (simp_all add: bitlen_alt_def)
  then have pw: "(2::rat) ^ nat (bitlen p) = 2 powi bitlen p"
    "(2::rat) ^ nat (bitlen q) = 2 powi bitlen q"
    "(2::rat) ^ nat (bitlen p - 1) = 2 powi (bitlen p - 1)"
    "(2::rat) ^ nat (bitlen q - 1) = 2 powi (bitlen q - 1)"
    by (simp_all add: power_int_def)
  have qpos: "(0::rat) < of_int q" using q by simp
  have upper: "\<bar>x\<bar> < 2 powi (?c + 1)"
  proof -
    have "of_int p / of_int q < 2 powi bitlen p / (of_int q :: rat)"
      using bp(2) qpos by (simp add: pw divide_strict_right_mono)
    also have "\<dots> \<le> 2 powi bitlen p / 2 powi (bitlen q - 1)"
      using bq(1) by (simp add: pw frac_le)
    also have "\<dots> = 2 powi (bitlen p - (bitlen q - 1))"
      by (simp only: pow2_diff)
    also have "bitlen p - (bitlen q - 1) = ?c + 1"
      by simp
    finally show ?thesis by (simp add: x)
  qed
  have lower: "2 powi (?c - 1) \<le> \<bar>x\<bar>"
  proof -
    have "?c - 1 = bitlen p - 1 - bitlen q"
      by simp
    then have "2 powi (?c - 1) = 2 powi (bitlen p - 1) / (2 powi bitlen q :: rat)"
      by (simp only: pow2_diff)
    also have "\<dots> \<le> of_int p / 2 powi bitlen q"
      using bp(1) by (simp add: pw divide_right_mono)
    also have "\<dots> \<le> of_int p / of_int q"
      using bq(2) p qpos by (simp add: pw frac_le)
    finally show ?thesis by (simp add: x)
  qed
  show "2 powi exponent x \<le> \<bar>x\<bar>"
    using lower by (simp add: exponent_def pq Let_def)
  show "\<bar>x\<bar> < 2 powi (exponent x + 1)"
    using upper by (auto simp add: exponent_def pq Let_def not_le)
qed

lemma round_even_error: "\<bar>of_int (round_even y) - y\<bar> \<le> 1 / 2"
proof -
  have "of_int \<lfloor>y\<rfloor> \<le> y" and "y < of_int \<lfloor>y\<rfloor> + 1"
    by linarith+
  then show ?thesis
    unfolding round_even_def Let_def by (simp add: abs_le_iff)
qed

lemma round_even_of_int: "round_even (of_int k) = k"
  by (simp add: round_even_def)

lemma fl_error:
  assumes "x \<noteq> 0"
  shows "\<bar>fl x - x\<bar> \<le> 2 powi (exponent x - 53)"
proof -
  let ?u = "(2::rat) powi (exponent x - 52)"
  have u: "0 < ?u" by (rule pow2_pos)
  have "fl x - x = (of_int (round_even (x / ?u)) - x / ?u) * ?u"
    using assms u by (simp add: fl_def Let_def algebra_simps)
  then have "\<bar>fl x - x\<bar> = \<bar>of_int (round_even (x / ?u)) - x / ?u\<bar> * ?u"
    using u by (simp add: abs_mult)
  also have "\<dots> \<le> 1 / 2 * ?u"
    using u round_even_error [of "x / ?u"] by (intro mult_right_mono) simp_all
  also have "\<dots> = 2 powi (exponent x - 53)"
    using pow2_Suc [of "exponent x - 53"] by simp
  finally show ?thesis .
qed

lemma fl_relative_error: "\<bar>fl x - x\<bar> \<le> \<bar>x\<bar> / 2 ^ 53"
proof (cases "x = 0")
  case True
  then show ?thesis by (simp add: fl_def)
next
  case False
  have "2 powi (exponent x - 53) = 2 powi exponent x / (2::rat) ^ 53"
    by (simp only: pow2_diff) simp
  also have "\<dots> \<le> \<bar>x\<bar> / 2 ^ 53"
    using exponent_bounds(1) [OF False] by (simp add: divide_right_mono)
  finally show ?thesis
    using fl_error [OF False] by linarith
qed

lemma exponent_less:
  assumes "x \<noteq> 0" and "\<bar>x\<bar> < 2 powi m"
  shows "exponent x < m"
proof (rule ccontr)
  assume "\<not> exponent x < m"
  then have "(2::rat) powi m \<le> 2 powi exponent x"
    by (intro power_int_increasing) simp_all
  with exponent_bounds(1) [OF assms(1)] assms(2) show False
    by linarith
qed

lemma fl_exact:
  assumes "\<bar>a\<bar> < 2 ^ 53"
  shows "fl (of_int a * 2 powi b) = of_int a * 2 powi b"
proof (cases "a = 0")
  case True
  then show ?thesis by (simp add: fl_def)
next
  case False
  let ?x = "of_int a * (2::rat) powi b"
  have x: "?x \<noteq> 0" using False by simp
  from assms have "\<bar>of_int a :: rat\<bar> < 2 ^ 53"
    by (metis of_int_abs of_int_less_iff of_int_numeral of_int_power)
  then have "\<bar>?x\<bar> < 2 ^ 53 * 2 powi b"
    by (simp add: abs_mult)
  also have "\<dots> = 2 powi (53 + b)"
    by (simp add: pow2_add)
  finally have "exponent ?x < 53 + b"
    by (rule exponent_less [OF x])
  define e where "e = exponent ?x"
  define k where "k = nat (b - (e - 52))"
  define u where "u = (2::rat) powi (e - 52)"
  from \<open>exponent ?x < 53 + b\<close> have "b = (e - 52) + int k"
    by (simp add: e_def k_def)
  then have "2 powi b = u * 2 ^ k"
    by (simp add: pow2_add u_def)
  moreover have "u \<noteq> 0"
    by (simp add: u_def)
  ultimately have "?x / u = of_int (a * 2 ^ k)"
    by simp
  then have "of_int (round_even (?x / u)) * u = of_int (a * 2 ^ k) * u"
    by (simp only: round_even_of_int)
  also have "\<dots> = ?x"
    using \<open>2 powi b = u * 2 ^ k\<close> by simp
  finally show ?thesis
    using x by (simp add: fl_def Let_def e_def u_def)
qed

lemma fl_of_int:
  assumes "\<bar>a\<bar> < 2 ^ 53"
  shows "fl (of_int a) = of_int a"
  using fl_exact [OF assms, of 0] by simp

lemma fl_half_int:
  assumes "\<bar>a\<bar> < 2 ^ 53"
  shows "fl (of_int a / 2) = of_int a / 2"
  using fl_exact [OF assms, of "- 1"] by (simp add: power_int_minus field_simps)

lemma Math_round_fl_div:
  assumes "\<bar>S\<bar> < 2 ^ 52" and "0 < n"
  shows "Math_round (fl (of_int S / of_nat n)) = Math_round (of_int S / of_nat n)"
proof -
  define q :: rat where "q = of_int S / of_nat n"
  define k where "k = \<lfloor>q + 1 / 2\<rfloor>"
  define d :: rat where "d = 1 / (2 * of_nat n)"
  have n: "(0::rat) < of_nat n"
    using assms(2) by simp
  have k: "of_int k \<le> q + 1 / 2" "q + 1 / 2 < of_int k + 1"
    unfolding k_def by linarith+
  have S: "\<bar>of_int S :: rat\<bar> < 2 ^ 52"
    using assms(1) by (metis of_int_abs of_int_less_iff of_int_numeral of_int_power)
  have qn: "\<bar>q\<bar> * of_nat n = \<bar>of_int S\<bar>"
    using n by (simp add: q_def abs_divide)
  have "1 \<le> (of_nat n :: rat)"
    using assms(2) by simp
  then have "\<bar>q\<bar> \<le> \<bar>q\<bar> * of_nat n"
    by (simp add: mult_le_cancel_left1)
  with qn S have qb: "\<bar>q\<bar> < 2 ^ 52"
    by linarith
  have err: "\<bar>fl q - q\<bar> < d \<or> fl q = q"
  proof (cases "q = 0")
    case True
    then show ?thesis by (simp add: fl_def)
  next
    case False
    have "\<bar>fl q - q\<bar> \<le> \<bar>q\<bar> / 2 ^ 53"
      by (rule fl_relative_error)
    also have "\<dots> = \<bar>of_int S\<bar> / (2 ^ 53 * of_nat n)"
      using n qn [symmetric] by simp
    also have "\<dots> < 2 ^ 52 / (2 ^ 53 * of_nat n)"
      using S n by (intro divide_strict_right_mono) simp_all
    also have "\<dots> = d"
      by (simp add: d_def)
    finally show ?thesis by simp
  qed
  have gap: "d \<le> x" if "0 < x" and "x * (2 * of_nat n) = of_int z" for x :: rat and z
  proof -
    from that n have "0 < (of_int z :: rat)"
      by (metis mult_pos_pos zero_less_numeral)
    then have "1 \<le> (of_int z :: rat)"
      by (simp add: int_one_le_iff_zero_less)
    with that(2) have "1 \<le> x * (2 * of_nat n)"
      by simp
    with n show ?thesis
      by (simp add: d_def field_simps)
  qed
  have lower: "of_int k - 1 / 2 \<le> fl q"
  proof (cases "q = of_int k - 1 / 2")
    case True
    then have q2: "q = of_int (2 * k - 1) / 2"
      by simp
    with qb have "\<bar>of_int (2 * k - 1) :: rat\<bar> < 2 ^ 53"
      by simp
    then have "\<bar>2 * k - 1\<bar> < 2 ^ 53"
      by (metis of_int_abs of_int_less_iff of_int_numeral of_int_power)
    then have "fl (of_int (2 * k - 1) / 2) = of_int (2 * k - 1) / 2"
      by (rule fl_half_int)
    then have "fl q = q"
      by (simp only: q2)
    with True show ?thesis
      by linarith
  next
    case False
    with k(1) have pos: "0 < q - (of_int k - 1 / 2)"
      by simp
    have "(q - (of_int k - 1 / 2)) * (2 * of_nat n) = of_int (2 * S - (2 * k - 1) * int n)"
      using n by (simp add: q_def field_simps)
    from gap [OF pos this] err pos show ?thesis
      by (auto simp add: abs_less_iff)
  qed
  have upper: "fl q < of_int k + 1 / 2"
  proof -
    from k(2) have pos: "0 < of_int k + 1 / 2 - q"
      by simp
    have "(of_int k + 1 / 2 - q) * (2 * of_nat n) = of_int ((2 * k + 1) * int n - 2 * S)"
      using n by (simp add: q_def field_simps)
    from gap [OF pos this] err pos show ?thesis
      by (auto simp add: abs_less_iff)
  qed
  from lower upper have "\<lfloor>fl q + 1 / 2\<rfloor> = k"
    by (simp add: floor_eq_iff)
  then show ?thesis
    by (simp add: Math_round_def q_def k_def)
qed

lemma fl_zero: "fl 0 = 0"
  by (simp add: fl_def)

lemma round_even_bounds: "\<lfloor>y\<rfloor> \<le> round_even y" "round_even y \<le> \<lfloor>y\<rfloor> + 1"
  by (simp_all add: round_even_def Let_def)

lemma fl_nonneg:
  assumes "0 \<le> x"
  shows "0 \<le> fl x"
proof (cases "x = 0")
  case True
  then show ?thesis by (simp add: fl_zero)
next
  case False
  let ?u = "(2::rat) powi (exponent x - 52)"
  from assms have "0 \<le> x / ?u"
    by simp
  then have "0 \<le> \<lfloor>x / ?u\<rfloor>"
    by simp
  with round_even_bounds(1) [of "x / ?u"] have "0 \<le> round_even (x / ?u)"
    by linarith
  with False show ?thesis
    by (simp add: fl_def Let_def)
qed

lemma fl_whole:
  assumes "whole x" and "\<bar>x\<bar> < 2 ^ 53"
  shows "fl x = x"
proof -
  from assms(1) have x: "x = of_int \<lfloor>x\<rfloor>"
    by (simp only: whole_def)
  with assms(2) have "\<bar>of_int \<lfloor>x\<rfloor> :: rat\<bar> < 2 ^ 53"
    by simp
  then have "\<bar>\<lfloor>x\<rfloor>\<bar> < 2 ^ 53"
    by (metis of_int_abs of_int_less_iff of_int_numeral of_int_power)
  from fl_of_int [OF this] x show ?thesis
    by simp
qed

lemma fl_idem: "fl (fl x) = fl x"
proof (cases "x = 0")
  case True
  then show ?thesis by (simp add: fl_zero)
next
  case False
  define e where "e = exponent x"
  define u where "u = (2::rat) powi (e - 52)"
  define a where "a = round_even (x / u)"
  have u: "0 < u"
    by (simp add: u_def)
  have flx: "fl x = of_int a * u"
    using False by (simp add: fl_def Let_def a_def u_def e_def)
  have "2 powi (e + 1) = u * 2 ^ 53"
  proof -
    have "e + 1 = (e - 52) + 53" by simp
    then have "(2::rat) powi (e + 1) = 2 powi (e - 52) * 2 powi 53"
      by (simp only: pow2_add)
    then show ?thesis by (simp add: u_def)
  qed
  with exponent_bounds(2) [OF False] have "\<bar>x\<bar> < u * 2 ^ 53"
    by (simp add: e_def)
  with u have "\<bar>x / u\<bar> < 2 ^ 53"
    by (simp add: abs_divide field_simps)
  then have y: "x / u < 2 ^ 53" "- (2 ^ 53) < x / u"
    by linarith+
  have "\<lfloor>x / u\<rfloor> < 2 ^ 53"
    using y(1) by (simp add: floor_less_iff)
  moreover have "- (2 ^ 53) \<le> \<lfloor>x / u\<rfloor>"
    using y(2) by (simp add: le_floor_iff)
  ultimately have a: "a \<le> 2 ^ 53" "- (2 ^ 53) \<le> a"
    unfolding a_def using round_even_bounds [of "x / u"] by linarith+
  consider "\<bar>a\<bar> < 2 ^ 53" | "a = 2 ^ 53" | "a = - (2 ^ 53)"
    using a by linarith
  then show ?thesis
  proof cases
    case 1
    from fl_exact [OF this, of "e - 52"] flx show ?thesis
      by (simp add: u_def)
  next
    case 2
    then have "fl x = of_int 1 * 2 powi (e + 1)"
      using flx \<open>2 powi (e + 1) = u * 2 ^ 53\<close> by simp
    moreover have "fl (of_int 1 * 2 powi (e + 1)) = of_int 1 * 2 powi (e + 1)"
      by (rule fl_exact) simp
    ultimately show ?thesis by simp
  next
    case 3
    then have "fl x = of_int (- 1) * 2 powi (e + 1)"
      using flx \<open>2 powi (e + 1) = u * 2 ^ 53\<close> by simp
    moreover have "fl (of_int (- 1) * 2 powi (e + 1)) = of_int (- 1) * 2 powi (e + 1)"
      by (rule fl_exact) simp
    ultimately show ?thesis by simp
  qed
qed

subsection \<open>Sums of integers are exact\<close>

lemma whole_add: "whole a \<Longrightarrow> whole b \<Longrightarrow> whole (a + b)"
  unfolding whole_def by (metis floor_of_int of_int_add)

lemma whole_of_int: "whole (of_int k)"
  by (simp add: whole_def)

lemma foldl_js_add_exact:
  "whole a \<Longrightarrow> list_all whole xs \<Longrightarrow> \<bar>a\<bar> + sum_list (map abs xs) < 2 ^ 53 \<Longrightarrow>
   foldl js_add a xs = a + sum_list xs"
proof (induction xs arbitrary: a)
  case Nil
  show ?case by simp
next
  case (Cons x xs)
  have nonneg: "0 \<le> sum_list (map abs xs)"
    by (rule sum_list_nonneg) auto
  from Cons.prems have w: "whole (a + x)"
    by (simp add: whole_add)
  have "\<bar>a + x\<bar> \<le> \<bar>a\<bar> + \<bar>x\<bar>"
    by (rule abs_triangle_ineq)
  with Cons.prems(3) nonneg have b: "\<bar>a + x\<bar> < 2 ^ 53"
    and b': "\<bar>a + x\<bar> + sum_list (map abs xs) < 2 ^ 53"
    by simp_all
  from fl_whole [OF w b] have "js_add a x = a + x"
    by (simp add: js_add_def)
  with Cons.IH [OF w _ b'] Cons.prems(2) show ?case
    by (simp add: add.assoc)
qed

lemma sum_list_whole: "list_all whole xs \<Longrightarrow> whole (sum_list xs)"
proof (induction xs)
  case Nil
  show ?case by (simp add: whole_def)
next
  case (Cons x xs)
  then show ?case by (simp add: whole_add)
qed

lemma abs_sum_list_le: "\<bar>sum_list xs\<bar> \<le> sum_list (map abs (xs :: rat list))"
proof (induction xs)
  case Nil
  show ?case by simp
next
  case (Cons x xs)
  have "\<bar>x + sum_list xs\<bar> \<le> \<bar>x\<bar> + \<bar>sum_list xs\<bar>"
    by (rule abs_triangle_ineq)
  with Cons.IH show ?case by simp
qed

lemma foldl_fl_add: "foldl (\<lambda>a x. fl (a + x)) a xs = foldl js_add a xs"
  by (induction xs arbitrary: a) (simp_all add: js_add_def)

lemma mean64_small_integers:
  assumes "small_integers xs" and "xs \<noteq> []"
  shows "Math_round (mean64 xs) = Math_round (mean xs)"
proof -
  from assms(1) have w: "list_all whole xs" and b: "sum_list (map abs xs) < 2 ^ 52"
    by (simp_all add: small_integers_def)
  have "foldl js_add 0 xs = 0 + sum_list xs"
    using w b by (intro foldl_js_add_exact) (simp_all add: whole_def)
  then have sum: "foldl (\<lambda>a x. fl (a + x)) 0 xs = sum_list xs"
    by (simp add: foldl_fl_add)
  from sum_list_whole [OF w] have S: "sum_list xs = of_int \<lfloor>sum_list xs\<rfloor>"
    by (simp only: whole_def)
  from abs_sum_list_le [of xs] b have "\<bar>sum_list xs\<bar> < 2 ^ 52"
    by linarith
  with S have "\<bar>of_int \<lfloor>sum_list xs\<rfloor> :: rat\<bar> < 2 ^ 52"
    by simp
  then have "\<bar>\<lfloor>sum_list xs\<rfloor>\<bar> < 2 ^ 52"
    by (metis of_int_abs of_int_less_iff of_int_numeral of_int_power)
  moreover from assms(2) have "0 < length xs"
    by simp
  ultimately have "Math_round (fl (of_int \<lfloor>sum_list xs\<rfloor> / of_nat (length xs))) =
      Math_round (of_int \<lfloor>sum_list xs\<rfloor> / of_nat (length xs))"
    by (rule Math_round_fl_div)
  with S sum show ?thesis
    by (simp add: mean64_def mean_def)
qed

subsection \<open>Rounding to integers and to hundredths\<close>

lemma Math_round_whole:
  assumes "whole x"
  shows "Math_round x = x"
proof -
  from assms have x: "x = of_int \<lfloor>x\<rfloor>"
    by (simp only: whole_def)
  have "\<lfloor>of_int n + (1::rat) / 2\<rfloor> = n" for n
    by (subst floor_eq_iff) simp
  then have "of_int \<lfloor>of_int \<lfloor>x\<rfloor> + (1::rat) / 2\<rfloor> = (of_int \<lfloor>x\<rfloor> :: rat)"
    by (simp only:)
  with x show ?thesis
    by (simp only: Math_round_def)
qed

lemma Math_round_nearest: "nearest_integer (Math_round x) x"
proof -
  have "whole (Math_round x)"
    by (simp only: Math_round_def whole_of_int)
  moreover have "x - 1 / 2 < Math_round x" and "Math_round x \<le> x + 1 / 2"
    unfolding Math_round_def by linarith+
  ultimately show ?thesis
    by (simp only: nearest_integer_def simp_thms)
qed

lemma Math_round_of_int: "Math_round x = of_int \<lfloor>x + 1 / 2\<rfloor>"
  by (simp only: Math_round_def)

lemma Math_round_eqI:
  assumes "\<bar>x - of_int k\<bar> < 1 / 2"
  shows "Math_round x = of_int k"
proof -
  from assms have "of_int k \<le> x + 1 / 2" "x + 1 / 2 < of_int k + 1"
    by linarith+
  then have "\<lfloor>x + 1 / 2\<rfloor> = k"
    by (simp add: floor_eq_iff)
  then show ?thesis
    by (simp add: Math_round_def)
qed

text \<open>A double that stands for a whole number of hundredths survives the rounding.\<close>

lemma hundredths_kept:
  assumes "\<bar>k\<bar> < 2 ^ 50"
  shows "js_quot (Math_round (js_mul (fl (of_int k / 100)) 100)) 100 = fl (of_int k / 100)"
proof -
  define c :: rat where "c = of_int k"
  define m where "m = fl (c / 100)"
  define p where "p = fl (m * 100)"
  from assms have c: "\<bar>c\<bar> < 2 ^ 50"
    unfolding c_def by (metis of_int_abs of_int_less_iff of_int_numeral of_int_power)
  have "\<bar>m - c / 100\<bar> \<le> \<bar>c / 100\<bar> / 2 ^ 53"
    unfolding m_def by (rule fl_relative_error)
  then have e1: "\<bar>m * 100 - c\<bar> \<le> \<bar>c\<bar> / 2 ^ 53"
    by (simp add: abs_le_iff field_simps)
  have e2: "\<bar>p - m * 100\<bar> \<le> \<bar>m * 100\<bar> / 2 ^ 53"
    unfolding p_def by (rule fl_relative_error)
  have "\<bar>m * 100\<bar> \<le> \<bar>c\<bar> + \<bar>m * 100 - c\<bar>"
    by linarith
  with e1 have "\<bar>m * 100\<bar> \<le> \<bar>c\<bar> + \<bar>c\<bar> / 2 ^ 53"
    by linarith
  with c have "\<bar>m * 100\<bar> < 2 ^ 51"
    by simp
  with e2 have e2': "\<bar>p - m * 100\<bar> < 1 / 4"
    by simp
  from e1 c have "\<bar>m * 100 - c\<bar> < 1 / 8"
    by simp
  with e2' have "\<bar>p - c\<bar> < 1 / 2"
    by linarith
  then have "Math_round p = of_int k"
    unfolding c_def by (rule Math_round_eqI)
  then show ?thesis
    by (simp add: js_quot_def js_mul_def p_def m_def c_def)
qed

section \<open>The reduce of averageResults\<close>

lemma or_else_Some_0: "or_else (Some x) 0 = x"
  by (simp add: or_else_def)

lemma or_else_present: "or_else x 0 = present_or_zero x"
  by (simp add: or_else_def present_or_zero_def split: option.split)

lemma sum_duration_foldl:
  "sum_duration (foldl add_result acc rs) =
     foldl js_add (sum_duration acc) (map (\<lambda>r. duration (metrics r)) rs)"
  by (induction rs arbitrary: acc) (simp_all add: add_result_def)

lemma sum_pagesProcessed_foldl:
  "sum_pagesProcessed (foldl add_result acc rs) =
     foldl js_add (sum_pagesProcessed acc) (map (\<lambda>r. pagesProcessed (metrics r)) rs)"
  by (induction rs arbitrary: acc) (simp_all add: add_result_def)

lemma sum_pagesFailed_foldl:
  "sum_pagesFailed (foldl add_result acc rs) =
     foldl js_add (sum_pagesFailed acc) (map (\<lambda>r. pagesFailed (metrics r)) rs)"
  by (induction rs arbitrary: acc) (simp_all add: add_result_def)

lemma sum_memoryUsed_foldl:
  "sum_memoryUsed (foldl add_result acc rs) =
     foldl js_add (sum_memoryUsed acc)
       (map (\<lambda>r. present_or_zero (memoryUsed (metrics r))) rs)"
  by (induction rs arbitrary: acc)
    (simp_all add: add_result_def or_else_Some_0 or_else_present [symmetric])

lemma sum_errors_foldl:
  "sum_errors (foldl add_result acc rs) =
     sum_errors acc @ concat (map (\<lambda>r. errors (metrics r)) rs)"
  by (induction rs arbitrary: acc) (simp_all add: add_result_def)

lemma js_quot_mean64: "js_quot (foldl js_add 0 xs) (of_nat (length xs)) = mean64 xs"
  by (simp add: js_quot_def mean64_def foldl_fl_add)

lemma averageResults_nonempty:
  assumes "rs \<noteq> []"
  shows "averageResults rs = Inr
     \<lparr>startTime = startTime (metrics (hd rs)),
      endTime = endTime (metrics (last rs)),
      duration = Math_round (mean64 (map (\<lambda>r. duration (metrics r)) rs)),
      pagesProcessed = Math_round (mean64 (map (\<lambda>r. pagesProcessed (metrics r)) rs)),
      pagesFailed = Math_round (mean64 (map (\<lambda>r. pagesFailed (metrics r)) rs)),
      memoryUsed = Some (fl (Math_round
         (fl (mean64 (map (\<lambda>r. present_or_zero (memoryUsed (metrics r))) rs) * 100)) / 100)),
      errors = concat (map (\<lambda>r. errors (metrics r)) rs)\<rparr>"
proof -
  from assms have "rs ! 0 = hd rs" and "rs ! (length rs - 1) = last rs"
    by (simp_all add: hd_conv_nth last_conv_nth)
  moreover have "js_quot (foldl js_add 0 (map f rs)) (of_nat (length rs)) = mean64 (map f rs)"
    for f :: "BenchmarkResult \<Rightarrow> rat"
    using js_quot_mean64 [of "map f rs"] by simp
  ultimately show ?thesis
    using assms
    by (simp add: averageResults_def Let_def zero_totals_def sum_duration_foldl
        sum_pagesProcessed_foldl sum_pagesFailed_foldl sum_memoryUsed_foldl sum_errors_foldl)
      (simp add: js_quot_def js_mul_def)
qed

lemma averageResults_fields:
  assumes "rs \<noteq> []"
  shows "\<exists>m. averageResults rs = Inr m
    \<and> startTime m = startTime (metrics (hd rs))
    \<and> endTime m = endTime (metrics (last rs))
    \<and> duration m = Math_round (mean64 (map (\<lambda>r. duration (metrics r)) rs))
    \<and> pagesProcessed m = Math_round (mean64 (map (\<lambda>r. pagesProcessed (metrics r)) rs))
    \<and> pagesFailed m = Math_round (mean64 (map (\<lambda>r. pagesFailed (metrics r)) rs))
    \<and> memoryUsed m = Some (fl (Math_round
         (fl (mean64 (map (\<lambda>r. present_or_zero (memoryUsed (metrics r))) rs) * 100)) / 100))
    \<and> errors m = concat (map (\<lambda>r. errors (metrics r)) rs)"
  by (simp add: averageResults_nonempty [OF assms])

lemma averageResults_returns:
  assumes "rs \<noteq> []"
  shows "\<exists>m v. averageResults rs = Inr m \<and> memoryUsed m = Some v"
  using averageResults_fields [OF assms] by blast

lemma mean64_single: "mean64 [x] = fl x"
  by (simp add: mean64_def fl_idem)

lemma averageResults_single:
  "averageResults [r] = Inr
     \<lparr>startTime = startTime (metrics r), endTime = endTime (metrics r),
      duration = Math_round (fl (duration (metrics r))),
      pagesProcessed = Math_round (fl (pagesProcessed (metrics r))),
      pagesFailed = Math_round (fl (pagesFailed (metrics r))),
      memoryUsed = Some (fl (Math_round
         (fl (fl (present_or_zero (memoryUsed (metrics r))) * 100)) / 100)),
      errors = errors (metrics r)\<rparr>"
  using averageResults_nonempty [of "[r]"] by (simp add: mean64_single)

lemma generateComparison_nonempty:
  assumes "ps \<noteq> []" and "cs \<noteq> []"
    and "averageResults ps = Inr pAvg" and "averageResults cs = Inr cAvg"
  shows "generateComparison ps cs = Inr
     \<lparr>playwright = (hd ps)\<lparr>metrics := pAvg\<rparr>,
      cheerio = (hd cs)\<lparr>metrics := cAvg\<rparr>,
      speedup = js_div (duration pAvg) (duration cAvg),
      memoryDifference =
        fl (present_or_zero (memoryUsed cAvg) - present_or_zero (memoryUsed pAvg)),
      pagesDifference = fl (pagesProcessed cAvg - pagesProcessed pAvg)\<rparr>"
  using assms by (simp add: generateComparison_def hd_conv_nth js_sub_def or_else_present)

lemma generateComparison_returns:
  assumes "ps \<noteq> []" and "cs \<noteq> []"
  shows "\<exists>c. generateComparison ps cs = Inr c"
proof -
  from averageResults_returns [OF assms(1)] obtain pAvg
    where p: "averageResults ps = Inr pAvg" by blast
  from averageResults_returns [OF assms(2)] obtain cAvg
    where c: "averageResults cs = Inr cAvg" by blast
  from generateComparison_nonempty [OF assms p c] show ?thesis
    by blast
qed

lemma generateReport_returns:
  "\<exists>rep. generateReport rs cfg now = Inr rep \<and> report_results rep = rs
     \<and> report_config rep = cfg \<and> timestamp rep = now
     \<and> (comparison rep \<noteq> None \<longleftrightarrow>
          filter (\<lambda>r. crawlerType r = ''playwright'') rs \<noteq> []
          \<and> filter (\<lambda>r. crawlerType r = ''cheerio'') rs \<noteq> [])"
proof (cases "filter (\<lambda>r. crawlerType r = ''playwright'') rs \<noteq> []
          \<and> filter (\<lambda>r. crawlerType r = ''cheerio'') rs \<noteq> []")
  case True
  then obtain c where "generateComparison (filter (\<lambda>r. crawlerType r = ''playwright'') rs)
      (filter (\<lambda>r. crawlerType r = ''cheerio'') rs) = Inr c"
    using generateComparison_returns by blast
  with True show ?thesis
    by (simp add: generateReport_def Let_def)
next
  case False
  then show ?thesis
    by (auto simp add: generateReport_def Let_def)
qed

subsection \<open>Doubles that the examples use\<close>

lemma fl_numeral:
  "numeral n < (2::int) ^ 53 \<Longrightarrow> fl (numeral n) = numeral n"
  using fl_of_int [of "numeral n"] by simp

lemma fl_neg_numeral:
  "numeral n < (2::int) ^ 53 \<Longrightarrow> fl (- numeral n) = - numeral n"
  using fl_of_int [of "- numeral n"] by simp

lemma fl_one: "fl 1 = 1"
  using fl_of_int [of 1] by simp

lemma fl_half_numeral:
  "numeral n < (2::int) ^ 53 \<Longrightarrow> fl (numeral n / 2) = numeral n / 2"
  using fl_half_int [of "numeral n"] by simp

lemmas fl_simps = fl_zero fl_one fl_numeral fl_neg_numeral fl_half_numeral

lemma floor_rat_numeral_div:
  "\<lfloor>(numeral a :: rat) / numeral b\<rfloor> = numeral a div numeral b"
  using floor_divide_of_int_eq [of "numeral a" "numeral b", where ?'a = rat] by simp

lemma floor_rat_neg_numeral_div:
  "\<lfloor>- ((numeral a :: rat) / numeral b)\<rfloor> = - numeral a div numeral b"
  using floor_divide_of_int_eq [of "- numeral a" "numeral b", where ?'a = rat] by simp

lemma floor_rat_one_div:
  "\<lfloor>(1 :: rat) / numeral b\<rfloor> = 1 div numeral b"
  using floor_divide_of_int_eq [of 1 "numeral b", where ?'a = rat] by simp

lemmas floor_rat = floor_rat_numeral_div floor_rat_neg_numeral_div floor_rat_one_div

lemma nearest_integer_unique:
  assumes "nearest_integer (of_int k) (of_int j)"
  shows "k = j"
proof -
  from assms have "(of_int j :: rat) - 1 / 2 < of_int k" "(of_int k :: rat) \<le> of_int j + 1 / 2"
    by (simp_all add: nearest_integer_def)
  then have "(of_int (2 * j - 1) :: rat) < of_int (2 * k)"
    and "(of_int (2 * k) :: rat) \<le> of_int (2 * j + 1)"
    by simp_all
  then have "2 * j - 1 < 2 * k" and "2 * k \<le> 2 * j + 1"
    by (simp_all only: of_int_less_iff of_int_le_iff)
  then show ?thesis
    by linarith
qed

lemma averageResults_memory:
  assumes "rs \<noteq> []"
  defines "M \<equiv> mean64 (map (\<lambda>r. present_or_zero (memoryUsed (metrics r))) rs)"
  shows "\<exists>m k. averageResults rs = Inr m
    \<and> memoryUsed m = Some (fl (of_int k / 100))
    \<and> nearest_integer (of_int k) (fl (M * 100))
    \<and> \<bar>of_int k / 100 - M\<bar> \<le> 1 / 200 + \<bar>M\<bar> / 2 ^ 53"
proof -
  define p where "p = fl (M * 100)"
  define k where "k = \<lfloor>p + 1 / 2\<rfloor>"
  from averageResults_fields [OF assms(1)] obtain m where m: "averageResults rs = Inr m"
    "memoryUsed m = Some (fl (Math_round (fl (M * 100)) / 100))"
    unfolding M_def by blast
  have k: "Math_round p = of_int k"
    by (simp add: Math_round_def k_def)
  from Math_round_nearest [of p] have near: "nearest_integer (of_int k) p"
    by (simp only: k)
  then have "\<bar>of_int k - p\<bar> \<le> 1 / 2"
    unfolding nearest_integer_def by linarith
  moreover have "\<bar>p - M * 100\<bar> \<le> \<bar>M * 100\<bar> / 2 ^ 53"
    unfolding p_def by (rule fl_relative_error)
  ultimately have "\<bar>of_int k - M * 100\<bar> \<le> 1 / 2 + \<bar>M * 100\<bar> / 2 ^ 53"
    by linarith
  then have "\<bar>of_int k / 100 - M\<bar> \<le> 1 / 200 + \<bar>M\<bar> / 2 ^ 53"
    by (simp add: abs_le_iff abs_mult field_simps)
  with m near k show ?thesis
    by (intro exI [of _ m] exI [of _ k]) (simp add: p_def)
qed

lemma mean64_example: "mean64 [40, 0, 85 / 2] = 55 / 2"
  by code_simp

lemma double_of_1003: "fl (1003 / 100) = 5646388032815759 / 2 ^ 49"
  by code_simp

section \<open>One iteration, path by path\<close>

lemma trackPeakMemory_max:
  "trackPeakMemory E s =
     \<lparr>peakMemory = max (peakMemory s) (fst (getMemoryUsage E (world s))),
      world = snd (getMemoryUsage E (world s))\<rparr>"
  by (auto simp add: trackPeakMemory_def Let_def max_def split: prod.splits)

lemma memoryInterval_max:
  "memoryInterval E fired pk = foldl max pk (map (\<lambda>w. fst (getMemoryUsage E w)) fired)"
  unfolding memoryInterval_def
  by (induction fired arbitrary: pk) (simp_all add: trackPeakMemory_max)

lemma foldl_max_Max: "foldl max (a::rat) xs = Max (set (a # xs))"
proof (induction xs arbitrary: a)
  case Nil
  show ?case by simp
next
  case (Cons x xs)
  have "Max (set (a # x # xs)) = max (max a x) (Max (set (x # xs)))"
    by (simp add: max.assoc)
  also have "\<dots> = Max (set (max a x # xs))"
    by (cases xs) (simp_all add: max.assoc max.left_commute)
  finally show ?case
    using Cons.IH [of "max a x"] by simp
qed

lemma copy_page:
  "\<lparr>page_url = page_url item, title = title item, htmlContent = htmlContent item,
    metadata = metadata item\<rparr> = (item :: CrawlResult)"
  by (cases item) simp

lemma peak_of_samples:
  assumes "Date_now E (world s) = (t0, w1)" and "getMemoryUsage E w1 = (m0, w2)"
    and "invocation E kind cfg s = (settled, fired, w3)"
  shows "max (memoryInterval E fired m0) (fst (getMemoryUsage E w3)) =
      Max (set (baseline E s # samples E kind cfg s))"
proof -
  let ?f = "\<lambda>w. fst (getMemoryUsage E w)"
  have "Max (set (m0 # map ?f (fired @ [w3]))) = foldl max m0 (map ?f (fired @ [w3]))"
    by (rule foldl_max_Max [symmetric])
  also have "\<dots> = max (foldl max m0 (map ?f fired)) (?f w3)"
    by simp
  finally have "max (memoryInterval E fired m0) (?f w3) = Max (set (m0 # map ?f (fired @ [w3])))"
    by (simp only: memoryInterval_max)
  moreover from assms have "baseline E s = m0" "samples E kind cfg s = map ?f (fired @ [w3])"
    by (simp_all add: baseline_def samples_def)
  ultimately show ?thesis
    by (simp only:)
qed

lemma runBenchmark_rejected:
  assumes "Date_now E (world s) = (t0, w1)" and "getMemoryUsage E w1 = (m0, w2)"
    and "invocation E kind cfg s = (Inl err, fired, w3)"
    and "Date_now E (snd (getMemoryUsage E w3)) = (t1, w5)"
  shows "runBenchmark E kind cfg i s =
    (case err of
       Unreadable e \<Rightarrow>
         (Inl e, \<lparr>peakMemory = Max (set (baseline E s # samples E kind cfg s)), world = w5\<rparr>)
     | _ \<Rightarrow>
     (Inr \<lparr>crawlerType = kind, config = cfg,
      metrics =
        \<lparr>startTime = of_int t0, endTime = of_int t1,
         duration = fl (of_int t1 - of_int t0),
         pagesProcessed = 0, pagesFailed = 1,
         memoryUsed = Some (Math_max 0
           (fl (Max (set (baseline E s # samples E kind cfg s)) - baseline E s))),
         errors = [case err of Error message \<Rightarrow> message | NonError text \<Rightarrow> text]\<rparr>,
      results = [], iteration = i\<rparr>,
     \<lparr>peakMemory = Max (set (baseline E s # samples E kind cfg s)), world = w5\<rparr>))"
proof -
  from assms(1,2) have b: "baseline E s = m0"
    by (simp add: baseline_def)
  from assms(3) have c: "crawl E (if kind = ''playwright'' then PlaywrightCrawlerImpl
        else CheerioCrawlerImpl) (url cfg)
       \<lparr>opt_maxPages = maxPages cfg, opt_maxDepth = maxDepth cfg,
        opt_timeout = timeout cfg, opt_maxConcurrency = None\<rparr> w2 = (Inl err, fired, w3)"
    using assms(1,2) by (simp add: invocation_def)
  note p = peak_of_samples [OF assms(1,2,3)]
  show ?thesis
    using assms(1,2,4) c p b
    by (cases err)
      (simp_all add: runBenchmark_def Let_def trackPeakMemory_max message_of_def js_sub_def)
qed

lemma runBenchmark_fulfilled:
  assumes "Date_now E (world s) = (t0, w1)" and "getMemoryUsage E w1 = (m0, w2)"
    and "invocation E kind cfg s = (Inr result, fired, w3)"
    and "Date_now E (snd (getMemoryUsage E w3)) = (t1, w5)"
  shows "runBenchmark E kind cfg i s =
    (Inr \<lparr>crawlerType = kind, config = cfg,
      metrics =
        \<lparr>startTime = of_int t0, endTime = of_int t1,
         duration = fl (of_int t1 - of_int t0),
         pagesProcessed = of_nat (length (items result)), pagesFailed = 0,
         memoryUsed = Some (Math_max 0
           (fl (Max (set (baseline E s # samples E kind cfg s)) - baseline E s))),
         errors = []\<rparr>,
      results = items result, iteration = i\<rparr>,
     \<lparr>peakMemory = Max (set (baseline E s # samples E kind cfg s)),
      world = snd (getMemoryUsage E w5)\<rparr>)"
proof -
  from assms(1,2) have b: "baseline E s = m0"
    by (simp add: baseline_def)
  from assms(3) have c: "crawl E (if kind = ''playwright'' then PlaywrightCrawlerImpl
        else CheerioCrawlerImpl) (url cfg)
       \<lparr>opt_maxPages = maxPages cfg, opt_maxDepth = maxDepth cfg,
        opt_timeout = timeout cfg, opt_maxConcurrency = None\<rparr> w2 = (Inr result, fired, w3)"
    using assms(1,2) by (simp add: invocation_def)
  note p = peak_of_samples [OF assms(1,2,3)]
  show ?thesis
    using assms(1,2,4) c p b
    by (simp add: runBenchmark_def Let_def trackPeakMemory_max js_sub_def copy_page
        split: prod.splits)
qed

lemma runBenchmark_cases:
  obtains (rejected) t0 w1 m0 w2 err fired w3 t1 w5
    where "Date_now E (world s) = (t0, w1)" and "getMemoryUsage E w1 = (m0, w2)"
      and "invocation E kind cfg s = (Inl err, fired, w3)"
      and "Date_now E (snd (getMemoryUsage E w3)) = (t1, w5)"
  | (fulfilled) t0 w1 m0 w2 result fired w3 t1 w5
    where "Date_now E (world s) = (t0, w1)" and "getMemoryUsage E w1 = (m0, w2)"
      and "invocation E kind cfg s = (Inr result, fired, w3)"
      and "Date_now E (snd (getMemoryUsage E w3)) = (t1, w5)"
proof -
  obtain t0 w1 where a: "Date_now E (world s) = (t0, w1)" by (cases "Date_now E (world s)")
  obtain m0 w2 where b: "getMemoryUsage E w1 = (m0, w2)" by (cases "getMemoryUsage E w1")
  obtain settled fired w3 where c: "invocation E kind cfg s = (settled, fired, w3)"
    by (cases "invocation E kind cfg s")
  obtain t1 w5 where d: "Date_now E (snd (getMemoryUsage E w3)) = (t1, w5)"
    by (cases "Date_now E (snd (getMemoryUsage E w3))")
  show thesis
  proof (cases settled)
    case (Inl err)
    with a b c d show thesis by (intro rejected) simp_all
  next
    case (Inr result)
    with a b c d show thesis by (intro fulfilled) simp_all
  qed
qed

lemma runBenchmark_label:
  assumes "runBenchmark E kind cfg i s = (Inr r, s')"
  shows "crawlerType r = kind \<and> iteration r = i"
proof (cases rule: runBenchmark_cases [of E s kind cfg])
  case (rejected t0 w1 m0 w2 err fired w3 t1 w5)
  from runBenchmark_rejected [OF this, of i] assms show ?thesis
    by (cases err) auto
next
  case (fulfilled t0 w1 m0 w2 result fired w3 t1 w5)
  from runBenchmark_fulfilled [OF this, of i] assms show ?thesis
    by auto
qed

lemma runBenchmark_returns:
  assumes "\<And>e. fst (invocation E kind cfg s) \<noteq> Inl (Unreadable e)"
  shows "\<exists>r s'. runBenchmark E kind cfg i s = (Inr r, s')"
proof (cases rule: runBenchmark_cases [of E s kind cfg])
  case (rejected t0 w1 m0 w2 err fired w3 t1 w5)
  from runBenchmark_rejected [OF this, of i] assms rejected(3) show ?thesis
    by (cases err) auto
next
  case (fulfilled t0 w1 m0 w2 result fired w3 t1 w5)
  from runBenchmark_fulfilled [OF this, of i] show ?thesis
    by auto
qed

section \<open>The loops\<close>

lemma invocation_readable:
  assumes "\<forall>c u opts w e. fst (crawl E c u opts w) \<noteq> Inl (Unreadable e)"
  shows "fst (invocation E kind cfg s) \<noteq> Inl (Unreadable e)"
  using assms by (simp add: invocation_def)

lemma iterations_loop_finite:
  assumes "iterations cfg = Some (Num (of_nat n))"
  shows "i \<le> n \<Longrightarrow>
    \<exists>out rs' s' k. iterations_loop E kind cfg i rs s = Some (out, rs', s')
      \<and> i \<le> k \<and> k \<le> n
      \<and> labels rs' = labels rs @ map (Pair kind) [i ..< k]
      \<and> (out = None \<longrightarrow> k = n)
      \<and> ((\<forall>c u opts w e. fst (crawl E c u opts w) \<noteq> Inl (Unreadable e)) \<longrightarrow> out = None)"
proof (induction "n - i" arbitrary: i rs s)
  case 0
  then have "\<not> index_below i (iterations cfg)"
    using assms by (simp add: index_below_def)
  then have "iterations_loop E kind cfg i rs s = Some (None, rs, s)"
    by (subst iterations_loop.simps) simp
  with 0 show ?case
    by (intro exI [of _ None] exI [of _ rs] exI [of _ s] exI [of _ i]) simp
next
  case (Suc d)
  then have lt: "i < n"
    by simp
  then have below: "index_below i (iterations cfg)"
    using assms by (simp add: index_below_def)
  obtain outcome s' where run: "runBenchmark E kind cfg i s = (outcome, s')"
    by (cases "runBenchmark E kind cfg i s")
  show ?case
  proof (cases outcome)
    case (Inl e)
    with run below have "iterations_loop E kind cfg i rs s = Some (Some e, rs, s')"
      by (subst iterations_loop.simps) simp
    moreover have "\<not> (\<forall>c u opts w e. fst (crawl E c u opts w) \<noteq> Inl (Unreadable e))"
    proof
      assume "\<forall>c u opts w e. fst (crawl E c u opts w) \<noteq> Inl (Unreadable e)"
      then have "\<And>e. fst (invocation E kind cfg s) \<noteq> Inl (Unreadable e)"
        by (rule invocation_readable)
      from runBenchmark_returns [OF this, of i] run Inl show False
        by simp
    qed
    ultimately show ?thesis
      using lt
      by (intro exI [of _ "Some e"] exI [of _ rs] exI [of _ s'] exI [of _ i]) simp
  next
    case (Inr r)
    with run below
    have step: "iterations_loop E kind cfg i rs s =
        iterations_loop E kind cfg (i + 1) (rs @ [r]) s'"
      by (subst iterations_loop.simps) simp
    from run Inr have r: "crawlerType r = kind" "iteration r = i"
      using runBenchmark_label [of E kind cfg i s r s'] by simp_all
    from Suc(2) lt have "d = n - (i + 1)" "i + 1 \<le> n"
      by simp_all
    from Suc(1) [OF this, of "rs @ [r]" s'] obtain out rs' s'' k
      where k: "iterations_loop E kind cfg (i + 1) (rs @ [r]) s' = Some (out, rs', s'')"
        "i + 1 \<le> k" "k \<le> n"
        "labels rs' = labels (rs @ [r]) @ map (Pair kind) [i + 1 ..< k]"
        "out = None \<longrightarrow> k = n"
        "(\<forall>c u opts w e. fst (crawl E c u opts w) \<noteq> Inl (Unreadable e)) \<longrightarrow> out = None"
      by blast
    from k(2) have "[i ..< k] = i # [i + 1 ..< k]"
      by (simp add: upt_conv_Cons)
    with k(4) r have "labels rs' = labels rs @ map (Pair kind) [i ..< k]"
      by (simp add: labels_def)
    with k step show ?thesis
      by (intro exI [of _ out] exI [of _ rs'] exI [of _ s''] exI [of _ k]) simp
  qed
qed

lemma provider_major_split:
  assumes "k \<le> n"
  shows "\<exists>rest. map (Pair ''playwright'') [0 ..< k] @ rest = provider_major n"
    and "\<exists>rest. (map (Pair ''playwright'') [0 ..< n] @ map (Pair ''cheerio'') [0 ..< k]) @ rest
      = provider_major n"
proof -
  from assms have "[0 ..< n] = [0 ..< k] @ [k ..< n]"
    by (metis le_add_diff_inverse upt_add_eq_append zero_le)
  then have "map (Pair c) [0 ..< n] = map (Pair c) [0 ..< k] @ map (Pair c) [k ..< n]"
    for c :: string
    by simp
  then show "\<exists>rest. map (Pair ''playwright'') [0 ..< k] @ rest = provider_major n"
    and "\<exists>rest. (map (Pair ''playwright'') [0 ..< n] @ map (Pair ''cheerio'') [0 ..< k]) @ rest
      = provider_major n"
    by (simp_all add: provider_major_def)
qed

lemma crawlers_loop_both:
  assumes "iterations cfg = Some (Num (of_nat n))"
  shows "\<exists>out rs s1. crawlers_loop E [''playwright'', ''cheerio''] cfg [] s = Some (out, rs, s1)
      \<and> (\<exists>rest. labels rs @ rest = provider_major n)
      \<and> (out = None \<longrightarrow> labels rs = provider_major n)
      \<and> ((\<forall>c u opts w e. fst (crawl E c u opts w) \<noteq> Inl (Unreadable e)) \<longrightarrow> out = None)"
proof -
  have "0 \<le> n"
    by simp
  from iterations_loop_finite [OF assms this, of E "''playwright''" "[]" s]
  obtain out1 rs1 s1 k1
    where a0: "iterations_loop E ''playwright'' cfg 0 [] s = Some (out1, rs1, s1)"
      "k1 \<le> n" "labels rs1 = labels [] @ map (Pair ''playwright'') [0 ..< k1]"
      "out1 = None \<longrightarrow> k1 = n"
      "(\<forall>c u opts w e. fst (crawl E c u opts w) \<noteq> Inl (Unreadable e)) \<longrightarrow> out1 = None"
    by blast
  then have a: "iterations_loop E ''playwright'' cfg 0 [] s = Some (out1, rs1, s1)"
      "k1 \<le> n" "labels rs1 = map (Pair ''playwright'') [0 ..< k1]"
      "out1 = None \<longrightarrow> k1 = n"
      "(\<forall>c u opts w e. fst (crawl E c u opts w) \<noteq> Inl (Unreadable e)) \<longrightarrow> out1 = None"
    by (simp_all add: labels_def)
  show ?thesis
  proof (cases out1)
    case (Some e)
    with a(1) have "crawlers_loop E [''playwright'', ''cheerio''] cfg [] s
        = Some (Some e, rs1, s1)"
      by simp
    with a Some provider_major_split(1) [OF a(2)] show ?thesis
      by (intro exI [of _ "Some e"] exI [of _ rs1] exI [of _ s1]) simp
  next
    case None
    with a have rs1: "labels rs1 = map (Pair ''playwright'') [0 ..< n]"
      by simp
    from iterations_loop_finite [OF assms \<open>0 \<le> n\<close>, of E "''cheerio''" rs1 s1]
    obtain out2 rs2 s2 k2
      where b: "iterations_loop E ''cheerio'' cfg 0 rs1 s1 = Some (out2, rs2, s2)"
        "k2 \<le> n" "labels rs2 = labels rs1 @ map (Pair ''cheerio'') [0 ..< k2]"
        "out2 = None \<longrightarrow> k2 = n"
        "(\<forall>c u opts w e. fst (crawl E c u opts w) \<noteq> Inl (Unreadable e)) \<longrightarrow> out2 = None"
      by blast
    from a(1) None b(1)
    have "crawlers_loop E [''playwright'', ''cheerio''] cfg [] s = Some (out2, rs2, s2)"
      by (cases out2) simp_all
    moreover from b(3) rs1 provider_major_split(2) [OF b(2)]
    have "\<exists>rest. labels rs2 @ rest = provider_major n"
      by simp
    moreover from b(3,4) rs1 have "out2 = None \<longrightarrow> labels rs2 = provider_major n"
      by (simp add: provider_major_def)
    ultimately show ?thesis
      using b(5) by (intro exI [of _ out2] exI [of _ rs2] exI [of _ s2]) simp
  qed
qed

subsection \<open>The example runtimes\<close>

lemma megabytes:
  "js_quot (Math_round (js_mul (js_quot (js_quot 52428800 1024) 1024) 100)) 100 = 50"
  "js_quot (Math_round (js_mul (js_quot (js_quot 62914560 1024) 1024) 100)) 100 = 60"
  "js_quot (Math_round (js_mul (js_quot (js_quot 76021760 1024) 1024) 100)) 100 = 145 / 2"
  "js_quot (Math_round (js_mul (js_quot (js_quot 41943040 1024) 1024) 100)) 100 = 40"
  "js_quot (Math_round (js_mul (js_quot (js_quot 31457280 1024) 1024) 100)) 100 = 30"
  by code_simp+

lemma getMemoryUsage_example:
  "getMemoryUsage example_runtime w =
     (if w = 1 then 50 else if w = 2 then 60 else if w = 3 then 145 / 2
      else if w \<le> 6 then 40 else 30, w)"
  by (simp add: getMemoryUsage_def example_runtime_def megabytes)

lemma getMemoryUsage_hostile:
  "getMemoryUsage hostile_runtime w = getMemoryUsage example_runtime w"
  by (simp add: getMemoryUsage_def hostile_runtime_def)

lemma Date_now_example: "Date_now example_runtime w = (1000 * int w, w + 1)"
  "Date_now hostile_runtime w = (1000 * int w, w + 1)"
  by (simp_all add: example_runtime_def hostile_runtime_def)

lemma invocation_example:
  "invocation example_runtime ''playwright'' cfg \<lparr>peakMemory = pk, world = w\<rparr> =
     (Inl (Error ''connection refused''), [w + 2, w + 3], w + 4)"
  "invocation hostile_runtime kind cfg \<lparr>peakMemory = pk, world = w\<rparr> =
     (Inl (Unreadable (Error ''Cannot convert object to primitive value'')),
      [w + 2, w + 3], w + 4)"
  by (simp_all add: invocation_def Date_now_example getMemoryUsage_example
      getMemoryUsage_hostile)
    (simp_all add: example_runtime_def hostile_runtime_def)

lemma invocation_example_cheerio:
  "fst (invocation example_runtime ''cheerio'' cfg \<lparr>peakMemory = pk, world = w\<rparr>) =
     Inr \<lparr>items = [example_page (url cfg)],
          crawl_metadata =
            \<lparr>originalUrl = url cfg, totalPages = 1,
             completedAt = ''2024-01-01T00:00:01.000Z'', executionTime = 1000\<rparr>\<rparr>"
  "snd (invocation example_runtime ''cheerio'' cfg \<lparr>peakMemory = pk, world = w\<rparr>) =
     ([w + 2, w + 3], w + 4)"
  by (simp_all add: invocation_def Date_now_example getMemoryUsage_example)
    (simp_all add: example_runtime_def)

lemma samples_example:
  "samples example_runtime ''cheerio'' cfg \<lparr>peakMemory = pk, world = w\<rparr> =
     map (\<lambda>w'. fst (getMemoryUsage example_runtime w')) [w + 2, w + 3, w + 4]"
  using invocation_example_cheerio(2) [of cfg pk w]
  by (cases "invocation example_runtime ''cheerio'' cfg \<lparr>peakMemory = pk, world = w\<rparr>")
    (simp add: samples_def)

lemma hostile_runBenchmark:
  "\<exists>s'. runBenchmark hostile_runtime kind cfg i \<lparr>peakMemory = pk, world = w\<rparr>
     = (Inl (Error ''Cannot convert object to primitive value''), s')"
proof (cases rule: runBenchmark_cases
    [of hostile_runtime "\<lparr>peakMemory = pk, world = w\<rparr>" kind cfg])
  case (rejected t0 w1 m0 w2 err fired w3 t1 w5)
  from rejected(3) have "err = Unreadable (Error ''Cannot convert object to primitive value'')"
    by (simp add: invocation_example)
  with runBenchmark_rejected [OF rejected, of i] show ?thesis
    by simp
next
  case (fulfilled t0 w1 m0 w2 result fired w3 t1 w5)
  then show ?thesis
    by (simp add: invocation_example)
qed

lemma hostile_loop:
  assumes "index_below 0 (iterations cfg)"
  shows "\<exists>s'. crawlers_loop hostile_runtime (kind # kinds) cfg []
       \<lparr>peakMemory = pk, world = w\<rparr>
     = Some (Some (Error ''Cannot convert object to primitive value''), [], s')"
proof -
  from hostile_runBenchmark [of kind cfg 0 pk w] obtain s'
    where "runBenchmark hostile_runtime kind cfg 0 \<lparr>peakMemory = pk, world = w\<rparr>
      = (Inl (Error ''Cannot convert object to primitive value''), s')" ..
  with assms have "iterations_loop hostile_runtime kind cfg 0 [] \<lparr>peakMemory = pk, world = w\<rparr>
      = Some (Some (Error ''Cannot convert object to primitive value''), [], s')"
    by (subst iterations_loop.simps) simp
  then show ?thesis
    by simp
qed

section \<open>The claims\<close>



text \<open>
  C2, as stated: for every non-empty list the averaged duration, pagesProcessed and
  pagesFailed are the arithmetic means rounded to the nearest integer, and memoryUsed is
  the mean rounded to two decimal places. Binary64 arithmetic does not give that. Two
  results with durations 0.49999999999999994 and 0.5 and memory figures 1 and 1.01 (the
  doubles of these names) average to a duration of 1 and a memoryUsed of 1, where the
  mean of the durations rounds to 0 and the mean of the memory figures to 1.01.
\<close>

theorem averageResults_not_exact_mean:
  "averageResults
     [example_result ''cheerio'' 0 []
        (example_metrics 0 (9007199254740991 / 2 ^ 54) 5 (Some 1) []),
      example_result ''cheerio'' 1 []
        (example_metrics 10 (1 / 2) 5 (Some (4548635623644201 / 2 ^ 52)) [])]
   = Inr \<lparr>startTime = 0, endTime = 21 / 2, duration = 1, pagesProcessed = 5,
          pagesFailed = 0, memoryUsed = Some 1, errors = []\<rparr>
   \<and> \<not> nearest_integer 1 (mean [9007199254740991 / 2 ^ 54, 1 / 2])
   \<and> \<not> nearest_hundredth 1 (mean [1, 4548635623644201 / 2 ^ 52])"
  by code_simp

text \<open>
  C2, amended: for a non-empty list, \<open>averageResults\<close> returns metrics whose startTime is
  the first result's and whose endTime is the last result's. The duration, pagesProcessed
  and pagesFailed are each the binary64 mean of the inputs' field (added from the left,
  divided by the count) rounded to the nearest integer, which is the exact mean rounded
  to the nearest integer when the field's values are integers whose absolute values add
  up to less than \<open>2 ^ 52\<close>; durations 100, 200, 300 average to 200. The memoryUsed is
  the double of \<open>k / 100\<close>, where \<open>k\<close> is the binary64 mean of the memory figures (an
  absent one counting as 0) times 100, rounded to the nearest integer: \<open>k / 100\<close> is
  within 0.005 and one rounding error of that mean.
\<close>

theorem averageResults_means:
  assumes "rs \<noteq> []"
  shows "\<exists>m k. averageResults rs = Inr m
    \<and> nearest_integer (duration m) (mean64 (map (\<lambda>r. duration (metrics r)) rs))
    \<and> (small_integers (map (\<lambda>r. duration (metrics r)) rs) \<longrightarrow>
        nearest_integer (duration m) (mean (map (\<lambda>r. duration (metrics r)) rs)))
    \<and> nearest_integer (pagesProcessed m)
        (mean64 (map (\<lambda>r. pagesProcessed (metrics r)) rs))
    \<and> (small_integers (map (\<lambda>r. pagesProcessed (metrics r)) rs) \<longrightarrow>
        nearest_integer (pagesProcessed m) (mean (map (\<lambda>r. pagesProcessed (metrics r)) rs)))
    \<and> nearest_integer (pagesFailed m) (mean64 (map (\<lambda>r. pagesFailed (metrics r)) rs))
    \<and> (small_integers (map (\<lambda>r. pagesFailed (metrics r)) rs) \<longrightarrow>
        nearest_integer (pagesFailed m) (mean (map (\<lambda>r. pagesFailed (metrics r)) rs)))
    \<and> memoryUsed m = Some (fl (of_int k / 100))
    \<and> nearest_integer (of_int k)
        (fl (mean64 (map (\<lambda>r. present_or_zero (memoryUsed (metrics r))) rs) * 100))
    \<and> \<bar>of_int k / 100 - mean64 (map (\<lambda>r. present_or_zero (memoryUsed (metrics r))) rs)\<bar>
        \<le> 1 / 200
          + \<bar>mean64 (map (\<lambda>r. present_or_zero (memoryUsed (metrics r))) rs)\<bar> / 2 ^ 53
    \<and> startTime m = startTime (metrics (hd rs))
    \<and> endTime m = endTime (metrics (last rs))
    \<and> (map (\<lambda>r. duration (metrics r)) rs = [100, 200, 300] \<longrightarrow> duration m = 200)"
proof -
  from averageResults_memory [OF assms] obtain m k where m: "averageResults rs = Inr m"
    and mem: "memoryUsed m = Some (fl (of_int k / 100))"
      "nearest_integer (of_int k)
        (fl (mean64 (map (\<lambda>r. present_or_zero (memoryUsed (metrics r))) rs) * 100))"
      "\<bar>of_int k / 100 - mean64 (map (\<lambda>r. present_or_zero (memoryUsed (metrics r))) rs)\<bar>
        \<le> 1 / 200
          + \<bar>mean64 (map (\<lambda>r. present_or_zero (memoryUsed (metrics r))) rs)\<bar> / 2 ^ 53"
    by blast
  from averageResults_fields [OF assms] m
  have f: "startTime m = startTime (metrics (hd rs))" "endTime m = endTime (metrics (last rs))"
    "duration m = Math_round (mean64 (map (\<lambda>r. duration (metrics r)) rs))"
    "pagesProcessed m = Math_round (mean64 (map (\<lambda>r. pagesProcessed (metrics r)) rs))"
    "pagesFailed m = Math_round (mean64 (map (\<lambda>r. pagesFailed (metrics r)) rs))"
    by auto
  have exact: "nearest_integer (Math_round (mean64 (map g rs))) (mean (map g rs))"
    if "small_integers (map g rs)" for g :: "BenchmarkResult \<Rightarrow> rat"
  proof -
    from assms have "map g rs \<noteq> []" by simp
    from mean64_small_integers [OF that this] show ?thesis
      by (simp add: Math_round_nearest)
  qed
  have scenario: "duration m = 200"
    if d: "map (\<lambda>r. duration (metrics r)) rs = [100, 200, 300]"
  proof -
    have "small_integers [100, 200, 300]"
      by (simp add: small_integers_def whole_def)
    then have "Math_round (mean64 [100, 200, 300]) = Math_round (mean [100, 200, 300])"
      by (rule mean64_small_integers) simp
    also have "\<dots> = 200"
      by (simp add: mean_def Math_round_def floor_rat)
    finally show ?thesis
      by (simp add: f(3) d)
  qed
  from m mem f exact scenario show ?thesis
    by (intro exI [of _ m] exI [of _ k]) (simp add: Math_round_nearest)
qed

theorem averageResults_means_witness:
  "[example_result ''playwright'' 0 [] (example_metrics 1000 100 5 (Some 40) []),
    example_result ''playwright'' 1 [] (example_metrics 2000 200 5 None []),
    example_result ''playwright'' 2 [] (example_metrics 3000 300 4 (Some (85 / 2)) [])] \<noteq> []
   \<and> small_integers [100, 200, 300]
   \<and> (\<exists>m. averageResults
        [example_result ''playwright'' 0 [] (example_metrics 1000 100 5 (Some 40) []),
         example_result ''playwright'' 1 [] (example_metrics 2000 200 5 None []),
         example_result ''playwright'' 2 [] (example_metrics 3000 300 4 (Some (85 / 2)) [])]
        = Inr m
      \<and> duration m = 200 \<and> memoryUsed m = Some (55 / 2)
      \<and> startTime m = 1000 \<and> endTime m = 3300)"
proof -
  let ?rs = "[example_result ''playwright'' 0 [] (example_metrics 1000 100 5 (Some 40) []),
    example_result ''playwright'' 1 [] (example_metrics 2000 200 5 None []),
    example_result ''playwright'' 2 [] (example_metrics 3000 300 4 (Some (85 / 2)) [])]"
  have h: "?rs \<noteq> []" "small_integers [100, 200, 300]"
    by (simp_all add: small_integers_def whole_def)
  have ms: "map (\<lambda>r. present_or_zero (memoryUsed (metrics r))) ?rs = [40, 0, 85 / 2]"
    and ds: "map (\<lambda>r. duration (metrics r)) ?rs = [100, 200, 300]"
    by (simp_all add: example_result_def example_metrics_def present_or_zero_def)
  from averageResults_means [OF h(1)] obtain m k where m: "averageResults ?rs = Inr m"
    and mem: "memoryUsed m = Some (fl (of_int k / 100))"
      "nearest_integer (of_int k)
        (fl (mean64 (map (\<lambda>r. present_or_zero (memoryUsed (metrics r))) ?rs) * 100))"
    and t: "startTime m = startTime (metrics (hd ?rs))" "endTime m = endTime (metrics (last ?rs))"
    and d: "map (\<lambda>r. duration (metrics r)) ?rs = [100, 200, 300] \<longrightarrow> duration m = 200"
    by blast
  have "fl (mean64 [40, 0, 85 / 2] * 100) = of_int 2750"
    by (simp add: mean64_example fl_simps)
  with mem(2) have "k = 2750"
    by (simp only: ms nearest_integer_unique)
  then have "fl (of_int k / 100) = 55 / 2"
    by (simp add: fl_simps)
  with m mem(1) t d ds h show ?thesis
    by (simp add: example_result_def example_metrics_def)
qed

text \<open>
  C3. For two non-empty lists, \<open>generateComparison\<close> returns a comparison whose speedup is
  the browser average's duration divided by the parser average's, with no guard (a zero
  denominator gives a non-finite value, not an error), whose memoryDifference and
  pagesDifference are the parser average's value minus the browser average's, each in
  binary64; one browser run of 3000 ms, 40 MB, 5 pages against one parser run of 1200 ms,
  10 MB, 5 pages gives 2.5, -30 and 0.
\<close>

theorem generateComparison_formulas:
  assumes "ps \<noteq> []" and "cs \<noteq> []"
  shows "\<exists>pAvg cAvg pm cm cmp.
      averageResults ps = Inr pAvg \<and> memoryUsed pAvg = Some pm
    \<and> averageResults cs = Inr cAvg \<and> memoryUsed cAvg = Some cm
    \<and> generateComparison ps cs = Inr cmp
    \<and> speedup cmp =
        (if duration cAvg = 0 then Infinite_or_NaN
         else Finite (fl (duration pAvg / duration cAvg)))
    \<and> memoryDifference cmp = fl (cm - pm)
    \<and> pagesDifference cmp = fl (pagesProcessed cAvg - pagesProcessed pAvg)
    \<and> (\<forall>p c. ps = [p] \<and> cs = [c]
          \<and> duration (metrics p) = 3000 \<and> memoryUsed (metrics p) = Some 40
          \<and> pagesProcessed (metrics p) = 5
          \<and> duration (metrics c) = 1200 \<and> memoryUsed (metrics c) = Some 10
          \<and> pagesProcessed (metrics c) = 5
        \<longrightarrow> speedup cmp = Finite (5 / 2) \<and> memoryDifference cmp = - 30
          \<and> pagesDifference cmp = 0)"
proof -
  from averageResults_returns [OF assms(1)] obtain pAvg pm
    where p: "averageResults ps = Inr pAvg" "memoryUsed pAvg = Some pm" by blast
  from averageResults_returns [OF assms(2)] obtain cAvg cm
    where c: "averageResults cs = Inr cAvg" "memoryUsed cAvg = Some cm" by blast
  from generateComparison_nonempty [OF assms p(1) c(1)]
  obtain cmp where cmp: "generateComparison ps cs = Inr cmp"
    "speedup cmp = js_div (duration pAvg) (duration cAvg)"
    "memoryDifference cmp =
      fl (present_or_zero (memoryUsed cAvg) - present_or_zero (memoryUsed pAvg))"
    "pagesDifference cmp = fl (pagesProcessed cAvg - pagesProcessed pAvg)"
    by simp
  have "fl ((3000::rat) / 1200) = 5 / 2"
    using fl_half_numeral [of "num.Bit1 (num.Bit0 num.One)"] by simp
  then have scenario: "speedup cmp = Finite (5 / 2) \<and> memoryDifference cmp = - 30
          \<and> pagesDifference cmp = 0"
    if "ps = [p']" "cs = [c']"
      "duration (metrics p') = 3000" "memoryUsed (metrics p') = Some 40"
      "pagesProcessed (metrics p') = 5"
      "duration (metrics c') = 1200" "memoryUsed (metrics c') = Some 10"
      "pagesProcessed (metrics c') = 5" for p' c'
    using that cmp(1)
    by (auto simp add: generateComparison_def averageResults_single js_div_def js_sub_def
        Math_round_def or_else_def present_or_zero_def floor_rat fl_simps)
  from p c cmp scenario show ?thesis
    by (intro exI [of _ pAvg] exI [of _ cAvg] exI [of _ pm] exI [of _ cm] exI [of _ cmp])
      (simp add: js_div_def present_or_zero_def)
qed

theorem generateComparison_formulas_witness:
  "[example_result ''playwright'' 0 [] (example_metrics 0 3000 5 (Some 40) [])] \<noteq> []
   \<and> [example_result ''cheerio'' 0 [] (example_metrics 5000 1200 5 (Some 10) [])] \<noteq> []
   \<and> (\<exists>cmp. generateComparison
          [example_result ''playwright'' 0 [] (example_metrics 0 3000 5 (Some 40) [])]
          [example_result ''cheerio'' 0 [] (example_metrics 5000 1200 5 (Some 10) [])]
          = Inr cmp
        \<and> speedup cmp = Finite (5 / 2) \<and> memoryDifference cmp = - 30
        \<and> pagesDifference cmp = 0)"
  using generateComparison_formulas
    [of "[example_result ''playwright'' 0 [] (example_metrics 0 3000 5 (Some 40) [])]"
        "[example_result ''cheerio'' 0 [] (example_metrics 5000 1200 5 (Some 10) [])]"]
  by (auto simp add: example_result_def example_metrics_def)

text \<open>
  C4. \<open>averageResults\<close> of the empty list throws; it returns no default metrics.
\<close>

theorem averageResults_empty_throws:
  "averageResults [] = Inl (Error ''Cannot average empty results'')"
  by (simp add: averageResults_def)

text \<open>
  C5, as stated: \<open>averageResults [r]\<close> returns the metrics of \<open>r\<close> unchanged, for every
  \<open>r\<close>. It does not: a memoryUsed of 1.234 comes back as 1.23 (the doubles of these
  names).
\<close>

theorem averageResults_single_not_identity:
  "averageResults
     [example_result ''cheerio'' 0 []
        (example_metrics 0 1200 5 (Some (694680242521899 / 2 ^ 49)) [])]
   = Inr \<lparr>startTime = 0, endTime = 1200, duration = 1200, pagesProcessed = 5,
          pagesFailed = 0, memoryUsed = Some (2769713770832855 / 2 ^ 51), errors = []\<rparr>
   \<and> averageResults
     [example_result ''cheerio'' 0 []
        (example_metrics 0 1200 5 (Some (694680242521899 / 2 ^ 49)) [])]
   \<noteq> Inr (metrics
       (example_result ''cheerio'' 0 []
          (example_metrics 0 1200 5 (Some (694680242521899 / 2 ^ 49)) [])))"
proof -
  have "averageResults
     [example_result ''cheerio'' 0 []
        (example_metrics 0 1200 5 (Some (694680242521899 / 2 ^ 49)) [])]
   = Inr \<lparr>startTime = 0, endTime = 1200, duration = 1200, pagesProcessed = 5,
          pagesFailed = 0, memoryUsed = Some (2769713770832855 / 2 ^ 51), errors = []\<rparr>"
    by code_simp
  then show ?thesis
    by (simp add: example_result_def example_metrics_def)
qed

text \<open>
  C5, amended: \<open>averageResults [r]\<close> returns metrics with the startTime, endTime and
  errors of \<open>r\<close>, field by field. Its duration, pagesProcessed and pagesFailed are those
  of \<open>r\<close> rounded to the nearest integer, so each is unchanged when it is an integer of
  absolute value below \<open>2 ^ 53\<close>. Its memoryUsed is that of \<open>r\<close> (0 when absent) times
  100, rounded to the nearest integer \<open>k\<close>, as the double of \<open>k / 100\<close>, so it is
  unchanged when it is present and is the double of a whole number of hundredths, of
  absolute value below \<open>2 ^ 50\<close> hundredths.
\<close>

theorem averageResults_single_identity:
  "\<exists>m k. averageResults [r] = Inr m
     \<and> startTime m = startTime (metrics r) \<and> endTime m = endTime (metrics r)
     \<and> errors m = errors (metrics r)
     \<and> nearest_integer (duration m) (fl (duration (metrics r)))
     \<and> (whole (duration (metrics r)) \<and> \<bar>duration (metrics r)\<bar> < 2 ^ 53
          \<longrightarrow> duration m = duration (metrics r))
     \<and> nearest_integer (pagesProcessed m) (fl (pagesProcessed (metrics r)))
     \<and> (whole (pagesProcessed (metrics r)) \<and> \<bar>pagesProcessed (metrics r)\<bar> < 2 ^ 53
          \<longrightarrow> pagesProcessed m = pagesProcessed (metrics r))
     \<and> nearest_integer (pagesFailed m) (fl (pagesFailed (metrics r)))
     \<and> (whole (pagesFailed (metrics r)) \<and> \<bar>pagesFailed (metrics r)\<bar> < 2 ^ 53
          \<longrightarrow> pagesFailed m = pagesFailed (metrics r))
     \<and> memoryUsed m = Some (fl (of_int k / 100))
     \<and> nearest_integer (of_int k) (fl (fl (present_or_zero (memoryUsed (metrics r))) * 100))
     \<and> (\<forall>j. \<bar>j\<bar> < 2 ^ 50 \<and> memoryUsed (metrics r) = Some (fl (of_int j / 100))
          \<longrightarrow> memoryUsed m = memoryUsed (metrics r))"
proof -
  define p where "p = fl (fl (present_or_zero (memoryUsed (metrics r))) * 100)"
  define k where "k = \<lfloor>p + 1 / 2\<rfloor>"
  have k: "Math_round p = of_int k"
    by (simp add: Math_round_def k_def)
  from Math_round_nearest [of p] have near: "nearest_integer (of_int k) p"
    by (simp only: k)
  have same: "Math_round (fl x) = x" if "whole x" "\<bar>x\<bar> < 2 ^ 53" for x
    using that by (simp add: fl_whole Math_round_whole)
  have kept: "fl (Math_round p / 100) = fl (of_int j / 100)"
    if "\<bar>j\<bar> < 2 ^ 50" "memoryUsed (metrics r) = Some (fl (of_int j / 100))" for j
  proof -
    from that(2) have "p = js_mul (fl (of_int j / 100)) 100"
      by (simp add: p_def present_or_zero_def fl_idem js_mul_def)
    with hundredths_kept [OF that(1)] show ?thesis
      by (simp add: js_quot_def)
  qed
  show ?thesis
    apply (rule exI [of _ "projr (averageResults [r])"], rule exI [of _ k])
    using k near same kept
    apply (simp add: averageResults_single Math_round_nearest p_def)
    done
qed

theorem averageResults_single_identity_witness:
  "whole 1200 \<and> \<bar>1200 :: rat\<bar> < 2 ^ 53 \<and> whole 5 \<and> \<bar>5 :: rat\<bar> < 2 ^ 53
   \<and> whole 0 \<and> \<bar>0 :: rat\<bar> < 2 ^ 53 \<and> \<bar>1003 :: int\<bar> < 2 ^ 50
   \<and> 5646388032815759 / 2 ^ 49 = fl (of_int 1003 / 100)
   \<and> averageResults
       [example_result ''cheerio'' 0 []
          (example_metrics 0 1200 5 (Some (5646388032815759 / 2 ^ 49)) [])]
     = Inr (example_metrics 0 1200 5 (Some (5646388032815759 / 2 ^ 49)) [])"
proof -
  let ?r = "example_result ''cheerio'' 0 []
          (example_metrics 0 1200 5 (Some (5646388032815759 / 2 ^ 49)) [])"
  have h: "whole 1200" "\<bar>1200 :: rat\<bar> < 2 ^ 53" "whole 5" "\<bar>5 :: rat\<bar> < 2 ^ 53"
    "whole 0" "\<bar>0 :: rat\<bar> < 2 ^ 53" "\<bar>1003 :: int\<bar> < 2 ^ 50"
    by (simp_all add: whole_def)
  have d: "5646388032815759 / 2 ^ 49 = fl (of_int 1003 / 100)"
    using double_of_1003 by simp
  from averageResults_single_identity [of ?r] obtain m k
    where m: "averageResults [?r] = Inr m"
      and f: "startTime m = startTime (metrics ?r)" "endTime m = endTime (metrics ?r)"
        "errors m = errors (metrics ?r)"
      and c: "whole (duration (metrics ?r)) \<and> \<bar>duration (metrics ?r)\<bar> < 2 ^ 53
          \<longrightarrow> duration m = duration (metrics ?r)"
        "whole (pagesProcessed (metrics ?r)) \<and> \<bar>pagesProcessed (metrics ?r)\<bar> < 2 ^ 53
          \<longrightarrow> pagesProcessed m = pagesProcessed (metrics ?r)"
        "whole (pagesFailed (metrics ?r)) \<and> \<bar>pagesFailed (metrics ?r)\<bar> < 2 ^ 53
          \<longrightarrow> pagesFailed m = pagesFailed (metrics ?r)"
      and mem: "\<forall>j. \<bar>j\<bar> < 2 ^ 50 \<and> memoryUsed (metrics ?r) = Some (fl (of_int j / 100))
          \<longrightarrow> memoryUsed m = memoryUsed (metrics ?r)"
    by blast
  have "memoryUsed (metrics ?r) = Some (5646388032815759 / 2 ^ 49)"
    by (simp add: example_result_def example_metrics_def)
  then have "memoryUsed (metrics ?r) = Some (fl (of_int 1003 / 100))"
    by (simp only: d)
  with mem h(7) have "memoryUsed m = memoryUsed (metrics ?r)"
    by blast
  moreover from c h have "duration m = 1200" "pagesProcessed m = 5" "pagesFailed m = 0"
    by (simp_all add: example_result_def example_metrics_def)
  ultimately have "m = metrics ?r"
    using f by (simp add: example_result_def example_metrics_def)
  with m have "averageResults [?r]
      = Inr (example_metrics 0 1200 5 (Some (5646388032815759 / 2 ^ 49)) [])"
    by (simp add: example_result_def)
  with h d show ?thesis
    by blast
qed

text \<open>
  C6. For a non-empty list, the errors of \<open>averageResults\<close> are the inputs' error lists
  concatenated in list order, nothing removed: as many messages as the inputs hold together.
\<close>

theorem averageResults_errors_concat:
  assumes "rs \<noteq> []"
  shows "\<exists>m. averageResults rs = Inr m
    \<and> errors m = concat (map (\<lambda>r. errors (metrics r)) rs)
    \<and> length (errors m) = sum_list (map (\<lambda>r. length (errors (metrics r))) rs)"
  by (simp add: averageResults_nonempty [OF assms] length_concat comp_def)

theorem averageResults_errors_concat_witness:
  "[example_result ''cheerio'' 0 [] (example_metrics 0 10 0 (Some 0) [''timeout'']),
    example_result ''cheerio'' 1 [] (example_metrics 20 10 3 (Some 0) []),
    example_result ''cheerio'' 2 [] (example_metrics 40 10 0 (Some 0) [''refused'']),
    example_result ''cheerio'' 3 [] (example_metrics 60 10 0 (Some 0) [''timeout''])] \<noteq> []
   \<and> (\<exists>m. averageResults
        [example_result ''cheerio'' 0 [] (example_metrics 0 10 0 (Some 0) [''timeout'']),
         example_result ''cheerio'' 1 [] (example_metrics 20 10 3 (Some 0) []),
         example_result ''cheerio'' 2 [] (example_metrics 40 10 0 (Some 0) [''refused'']),
         example_result ''cheerio'' 3 [] (example_metrics 60 10 0 (Some 0) [''timeout''])]
        = Inr m
      \<and> errors m = [''timeout'', ''refused'', ''timeout''])"
  using averageResults_errors_concat
    [of "[example_result ''cheerio'' 0 [] (example_metrics 0 10 0 (Some 0) [''timeout'']),
          example_result ''cheerio'' 1 [] (example_metrics 20 10 3 (Some 0) []),
          example_result ''cheerio'' 2 [] (example_metrics 40 10 0 (Some 0) [''refused'']),
          example_result ''cheerio'' 3 [] (example_metrics 60 10 0 (Some 0) [''timeout''])]"]
  by (auto simp add: example_result_def example_metrics_def)

text \<open>
  C7. The report of \<open>generateReport\<close> has a comparison exactly when the results hold at
  least one of the browser crawler and at least one of the parser; with one provider only
  the report is returned without a comparison, and no error is raised.
\<close>

theorem generateReport_comparison_iff:
  "\<exists>rep. generateReport rs cfg now = Inr rep
     \<and> (comparison rep \<noteq> None \<longleftrightarrow>
          (\<exists>r \<in> set rs. crawlerType r = ''playwright'')
          \<and> (\<exists>r \<in> set rs. crawlerType r = ''cheerio''))"
proof -
  from generateReport_returns [of rs cfg now] obtain rep
    where "generateReport rs cfg now = Inr rep"
      and "comparison rep \<noteq> None \<longleftrightarrow>
          filter (\<lambda>r. crawlerType r = ''playwright'') rs \<noteq> []
          \<and> filter (\<lambda>r. crawlerType r = ''cheerio'') rs \<noteq> []"
    by blast
  then show ?thesis
    by (intro exI [of _ rep]) (simp add: filter_empty_conv)
qed

theorem generateReport_comparison_iff_witness:
  "(\<exists>rep. generateReport
        [example_result ''playwright'' 0 [] (example_metrics 0 3000 5 (Some 40) []),
         example_result ''cheerio'' 0 [] (example_metrics 5000 1200 5 (Some 10) [])]
        example_config ''2024-01-01T00:00:00.000Z'' = Inr rep
      \<and> comparison rep \<noteq> None)
   \<and> (\<exists>rep. generateReport
        [example_result ''playwright'' 0 [] (example_metrics 0 3000 5 (Some 40) []),
         example_result ''playwright'' 1 [] (example_metrics 5000 2900 5 (Some 41) [])]
        example_config ''2024-01-01T00:00:00.000Z'' = Inr rep
      \<and> comparison rep = None)"
  using generateReport_comparison_iff
    [of "[example_result ''playwright'' 0 [] (example_metrics 0 3000 5 (Some 40) []),
          example_result ''cheerio'' 0 [] (example_metrics 5000 1200 5 (Some 10) [])]"
        example_config "''2024-01-01T00:00:00.000Z''"]
    generateReport_comparison_iff
    [of "[example_result ''playwright'' 0 [] (example_metrics 0 3000 5 (Some 40) []),
          example_result ''playwright'' 1 [] (example_metrics 5000 2900 5 (Some 41) [])]"
        example_config "''2024-01-01T00:00:00.000Z''"]
  by (simp add: example_result_def)

text \<open>
  C8. A run that selects both providers, with \<open>n\<close> iterations, collects its results
  provider by provider, the browser crawler's before the parser's, and within a provider
  by iteration index from 0 to \<open>n - 1\<close>; for two iterations the order is
  A-0, A-1, B-0, B-1. The loop ends and the report holds that list, unless a
  \<open>runBenchmark\<close> rejects: the run then ends with that exception and no report, the
  results pushed until then being the first of that order.
\<close>

theorem runBenchmarks_order:
  assumes "o_crawler options = ''both''"
    and "parseInt E (o_iterations options) = Num (of_nat n)"
  shows "\<exists>out rs s1.
      crawlers_loop E (crawlersToTest options) (config_of E options) [] s = Some (out, rs, s1)
    \<and> (\<exists>rest. labels rs @ rest = provider_major n)
    \<and> (out = None \<longrightarrow> labels rs = provider_major n)
    \<and> (n = 2 \<and> out = None \<longrightarrow> labels rs =
          [(''playwright'', 0), (''playwright'', 1), (''cheerio'', 0), (''cheerio'', 1)])
    \<and> (case out of
          None \<Rightarrow> \<exists>rep s2. runBenchmarks E options s = Some (Inr rep, s2)
                    \<and> report_results rep = rs
        | Some e \<Rightarrow> runBenchmarks E options s = Some (Inl e, s1))
    \<and> ((\<forall>c u opts w e. fst (crawl E c u opts w) \<noteq> Inl (Unreadable e)) \<longrightarrow> out = None)"
proof -
  from assms(2) have n: "iterations (config_of E options) = Some (Num (of_nat n))"
    by (simp add: config_of_def)
  from assms(1) have kinds: "crawlersToTest options = [''playwright'', ''cheerio'']"
    by (simp add: crawlersToTest_def)
  from crawlers_loop_both [OF n, of E s] obtain out rs s1
    where loop: "crawlers_loop E [''playwright'', ''cheerio''] (config_of E options) [] s
        = Some (out, rs, s1)"
      and order: "\<exists>rest. labels rs @ rest = provider_major n"
        "out = None \<longrightarrow> labels rs = provider_major n"
      and ends: "(\<forall>c u opts w e. fst (crawl E c u opts w) \<noteq> Inl (Unreadable e)) \<longrightarrow> out = None"
    by blast
  have two: "provider_major 2 =
      [(''playwright'', 0), (''playwright'', 1), (''cheerio'', 0), (''cheerio'', 1)]"
    by (simp add: provider_major_def upt_rec)
  have report: "case out of
          None \<Rightarrow> \<exists>rep s2. runBenchmarks E options s = Some (Inr rep, s2)
                    \<and> report_results rep = rs
        | Some e \<Rightarrow> runBenchmarks E options s = Some (Inl e, s1)"
  proof (cases out)
    case None
    obtain now w2 where stamp: "toISOString E (world s1) = (now, w2)"
      by (cases "toISOString E (world s1)")
    from generateReport_returns [of rs "config_of E options" now] obtain rep
      where "generateReport rs (config_of E options) now = Inr rep" "report_results rep = rs"
      by blast
    with None loop kinds stamp show ?thesis
      by (simp add: runBenchmarks_def)
  next
    case (Some e)
    with loop kinds show ?thesis
      by (simp add: runBenchmarks_def)
  qed
  from loop kinds order ends two report show ?thesis
    by (intro exI [of _ out] exI [of _ rs] exI [of _ s1]) auto
qed

theorem runBenchmarks_order_witness:
  "o_crawler example_options = ''both''
   \<and> parseInt example_runtime (o_iterations example_options) = Num (of_nat 2)
   \<and> (\<exists>rep s2. runBenchmarks example_runtime example_options \<lparr>peakMemory = 0, world = 0\<rparr>
          = Some (Inr rep, s2)
        \<and> labels (report_results rep) =
            [(''playwright'', 0), (''playwright'', 1), (''cheerio'', 0), (''cheerio'', 1)])
   \<and> parseInt hostile_runtime (o_iterations example_options) = Num (of_nat 2)
   \<and> (\<exists>s2. runBenchmarks hostile_runtime example_options \<lparr>peakMemory = 0, world = 0\<rparr>
          = Some (Inl (Error ''Cannot convert object to primitive value''), s2))"
proof -
  let ?s = "\<lparr>peakMemory = 0, world = 0 :: nat\<rparr>"
  have h: "o_crawler example_options = ''both''"
    "parseInt example_runtime (o_iterations example_options) = Num (of_nat 2)"
    by (simp_all add: example_options_def example_runtime_def)
  have readable: "\<forall>c u opts w e. fst (crawl example_runtime c u opts w) \<noteq> Inl (Unreadable e)"
    by (simp add: example_runtime_def split: impl.split)
  from runBenchmarks_order [OF h, of ?s] obtain out rs s1
    where "out = None \<longrightarrow> labels rs = provider_major 2"
      "2 = (2::nat) \<and> out = None \<longrightarrow> labels rs =
          [(''playwright'', 0), (''playwright'', 1), (''cheerio'', 0), (''cheerio'', 1)]"
      "case out of
          None \<Rightarrow> \<exists>rep s2. runBenchmarks example_runtime example_options ?s
                      = Some (Inr rep, s2) \<and> report_results rep = rs
        | Some e \<Rightarrow> runBenchmarks example_runtime example_options ?s = Some (Inl e, s1)"
      "(\<forall>c u opts w e. fst (crawl example_runtime c u opts w) \<noteq> Inl (Unreadable e))
          \<longrightarrow> out = None"
    by blast
  with readable h have able: "\<exists>rep s2. runBenchmarks example_runtime example_options ?s
          = Some (Inr rep, s2)
        \<and> labels (report_results rep) =
            [(''playwright'', 0), (''playwright'', 1), (''cheerio'', 0), (''cheerio'', 1)]"
    by auto
  have g: "parseInt hostile_runtime (o_iterations example_options) = Num (of_nat 2)"
    by (simp add: example_options_def example_runtime_def hostile_runtime_def)
  then have "index_below 0 (iterations (config_of hostile_runtime example_options))"
    by (simp add: config_of_def index_below_def)
  from hostile_loop [OF this, of "''playwright''" "[''cheerio'']" 0 0] obtain s'
    where aborted: "crawlers_loop hostile_runtime [''playwright'', ''cheerio'']
        (config_of hostile_runtime example_options) [] ?s
      = Some (Some (Error ''Cannot convert object to primitive value''), [], s')" ..
  from runBenchmarks_order [OF h(1) g, of ?s] h(1) aborted
  have "\<exists>s2. runBenchmarks hostile_runtime example_options ?s
          = Some (Inl (Error ''Cannot convert object to primitive value''), s2)"
    by (auto simp add: crawlersToTest_def)
  with able h g show ?thesis
    by blast
qed

text \<open>
  C9. On the success and on the failure path alike, memoryUsed is
  \<open>max 0 (peak - baseline)\<close>, the difference in binary64 and the peak being the greatest
  of the baseline and the samples taken since; it is never negative, and it is 0 when no
  sample exceeds the baseline. \<open>runBenchmark\<close> returns such a result whenever the crawl
  is fulfilled or rejects with a reason that has a text.
\<close>

theorem runBenchmark_memory_floor:
  fixes E :: "'w runtime" and s :: "'w process" and kind :: string and cfg :: BenchmarkConfig
  defines "b \<equiv> baseline E s"
  defines "peak \<equiv> Max (set (baseline E s # samples E kind cfg s))"
  shows "0 \<le> max 0 (fl (peak - b)) \<and> b \<le> peak
    \<and> (list_all (\<lambda>x. x \<le> b) (samples E kind cfg s) \<longrightarrow> max 0 (fl (peak - b)) = 0)
    \<and> (\<forall>r s'. runBenchmark E kind cfg i s = (Inr r, s') \<longrightarrow>
          memoryUsed (metrics r) = Some (max 0 (fl (peak - b))) \<and> peakMemory s' = peak)
    \<and> ((\<forall>e. fst (invocation E kind cfg s) \<noteq> Inl (Unreadable e)) \<longrightarrow>
          (\<exists>r s'. runBenchmark E kind cfg i s = (Inr r, s')))"
proof -
  have ge: "b \<le> peak"
    by (simp add: b_def peak_def)
  have flat: "max 0 (fl (peak - b)) = 0" if "list_all (\<lambda>x. x \<le> b) (samples E kind cfg s)"
  proof -
    from that have "\<forall>x \<in> set (baseline E s # samples E kind cfg s). x \<le> b"
      by (simp add: list_all_iff b_def)
    then have "peak \<le> b"
      unfolding peak_def by (subst Max_le_iff) simp_all
    with ge have "peak - b = 0"
      by simp
    then show ?thesis
      by (simp add: fl_zero)
  qed
  have same: "Math_max 0 (fl (peak - b)) = max 0 (fl (peak - b))"
    by (simp add: Math_max_def max_def)
  have result: "memoryUsed (metrics r) = Some (max 0 (fl (peak - b))) \<and> peakMemory s' = peak"
    if "runBenchmark E kind cfg i s = (Inr r, s')" for r s'
  proof (cases rule: runBenchmark_cases [of E s kind cfg])
    case (rejected t0 w1 m0 w2 err fired w3 t1 w5)
    from runBenchmark_rejected [OF this, of i] that same show ?thesis
      by (cases err) (auto simp add: b_def peak_def)
  next
    case (fulfilled t0 w1 m0 w2 result fired w3 t1 w5)
    from runBenchmark_fulfilled [OF this, of i] that same show ?thesis
      by (auto simp add: b_def peak_def)
  qed
  have returns: "\<exists>r s'. runBenchmark E kind cfg i s = (Inr r, s')"
    if "\<forall>e. fst (invocation E kind cfg s) \<noteq> Inl (Unreadable e)"
    using that by (intro runBenchmark_returns) simp
  from ge flat result returns show ?thesis
    by simp
qed

theorem runBenchmark_memory_floor_witness:
  "baseline example_runtime \<lparr>peakMemory = 0, world = 0\<rparr> = 50
   \<and> samples example_runtime ''cheerio'' example_config \<lparr>peakMemory = 0, world = 0\<rparr>
       = [60, 145 / 2, 40]
   \<and> (\<exists>r s'. runBenchmark example_runtime ''cheerio'' example_config 0
          \<lparr>peakMemory = 0, world = 0\<rparr> = (Inr r, s')
        \<and> memoryUsed (metrics r) = Some (45 / 2) \<and> peakMemory s' = 145 / 2)
   \<and> baseline example_runtime \<lparr>peakMemory = 145 / 2, world = 5\<rparr> = 40
   \<and> samples example_runtime ''cheerio'' example_config \<lparr>peakMemory = 145 / 2, world = 5\<rparr>
       = [30, 30, 30]
   \<and> (\<exists>r s'. runBenchmark example_runtime ''cheerio'' example_config 1
          \<lparr>peakMemory = 145 / 2, world = 5\<rparr> = (Inr r, s')
        \<and> memoryUsed (metrics r) = Some 0 \<and> peakMemory s' = 40)"
proof -
  let ?s = "\<lparr>peakMemory = 0, world = 0 :: nat\<rparr>"
  let ?t = "\<lparr>peakMemory = 145 / 2, world = 5 :: nat\<rparr>"
  have b: "baseline example_runtime ?s = 50" "baseline example_runtime ?t = 40"
    by (simp_all add: baseline_def Date_now_example getMemoryUsage_example)
  have x: "samples example_runtime ''cheerio'' example_config ?s = [60, 145 / 2, 40]"
    "samples example_runtime ''cheerio'' example_config ?t = [30, 30, 30]"
    by (simp_all add: samples_example getMemoryUsage_example)
  have ok: "\<forall>e. fst (invocation example_runtime ''cheerio'' example_config ?s)
        \<noteq> Inl (Unreadable e)"
    "\<forall>e. fst (invocation example_runtime ''cheerio'' example_config ?t)
        \<noteq> Inl (Unreadable e)"
    by (simp_all add: invocation_example_cheerio)
  have v: "max 0 (fl (145 / 2 - 50 :: rat)) = 45 / 2"
    "Max (set [50, 60, 145 / 2, 40 :: rat]) = 145 / 2"
    "max 0 (fl (40 - 40 :: rat)) = 0"
    "Max (set [40, 30, 30, 30 :: rat]) = 40"
    by (simp_all add: fl_simps)
  from runBenchmark_memory_floor [of example_runtime ?s "''cheerio''" example_config 0] ok(1)
  have "\<exists>r s'. runBenchmark example_runtime ''cheerio'' example_config 0 ?s = (Inr r, s')
        \<and> memoryUsed (metrics r) = Some (45 / 2) \<and> peakMemory s' = 145 / 2"
    unfolding b x v by blast
  moreover
  from runBenchmark_memory_floor [of example_runtime ?t "''cheerio''" example_config 1] ok(2)
  have "\<exists>r s'. runBenchmark example_runtime ''cheerio'' example_config 1 ?t = (Inr r, s')
        \<and> memoryUsed (metrics r) = Some 0 \<and> peakMemory s' = 40"
    unfolding b x v by blast
  ultimately show ?thesis
    using b x by blast
qed

text \<open>
  C10. Each provider's entry in the comparison is the first result of that provider's
  list with the metrics replaced by the average: crawlerType, config, page list and
  iteration index are the first result's, so the page list is iteration 0's and not a
  merge.
\<close>

theorem generateComparison_frame:
  assumes "ps \<noteq> []" and "cs \<noteq> []"
  shows "\<exists>pAvg cAvg cmp.
      averageResults ps = Inr pAvg \<and> averageResults cs = Inr cAvg
    \<and> generateComparison ps cs = Inr cmp
    \<and> playwright cmp = (hd ps)\<lparr>metrics := pAvg\<rparr>
    \<and> cheerio cmp = (hd cs)\<lparr>metrics := cAvg\<rparr>
    \<and> crawlerType (playwright cmp) = crawlerType (hd ps)
    \<and> config (playwright cmp) = config (hd ps)
    \<and> results (playwright cmp) = results (hd ps)
    \<and> iteration (playwright cmp) = iteration (hd ps)
    \<and> metrics (playwright cmp) = pAvg
    \<and> crawlerType (cheerio cmp) = crawlerType (hd cs)
    \<and> config (cheerio cmp) = config (hd cs)
    \<and> results (cheerio cmp) = results (hd cs)
    \<and> iteration (cheerio cmp) = iteration (hd cs)
    \<and> metrics (cheerio cmp) = cAvg"
proof -
  from averageResults_returns [OF assms(1)] obtain pAvg
    where p: "averageResults ps = Inr pAvg" by blast
  from averageResults_returns [OF assms(2)] obtain cAvg
    where c: "averageResults cs = Inr cAvg" by blast
  from p c generateComparison_nonempty [OF assms p c] show ?thesis
    by simp
qed

theorem generateComparison_frame_witness:
  "[example_result ''playwright'' 0 [example_page ''https://example.com/a'']
      (example_metrics 0 3000 1 (Some 40) []),
    example_result ''playwright'' 1 [example_page ''https://example.com/b'']
      (example_metrics 4000 3200 1 (Some 42) [])] \<noteq> []
   \<and> [example_result ''cheerio'' 0 [] (example_metrics 9000 1200 0 (Some 10) [])] \<noteq> []
   \<and> (\<exists>cmp. generateComparison
        [example_result ''playwright'' 0 [example_page ''https://example.com/a'']
           (example_metrics 0 3000 1 (Some 40) []),
         example_result ''playwright'' 1 [example_page ''https://example.com/b'']
           (example_metrics 4000 3200 1 (Some 42) [])]
        [example_result ''cheerio'' 0 [] (example_metrics 9000 1200 0 (Some 10) [])]
        = Inr cmp
      \<and> results (playwright cmp) = [example_page ''https://example.com/a'']
      \<and> iteration (playwright cmp) = 0 \<and> crawlerType (playwright cmp) = ''playwright''
      \<and> config (playwright cmp) = example_config)"
  using generateComparison_frame
    [of "[example_result ''playwright'' 0 [example_page ''https://example.com/a'']
            (example_metrics 0 3000 1 (Some 40) []),
          example_result ''playwright'' 1 [example_page ''https://example.com/b'']
            (example_metrics 4000 3200 1 (Some 42) [])]"
        "[example_result ''cheerio'' 0 [] (example_metrics 9000 1200 0 (Some 10) [])]"]
  by (auto simp add: example_result_def)

end
